theory Spec2Isabelle
  imports Complex_Main
begin

section \<open>Numeric values of the script\<close>

text \<open>
  The script \<^verbatim>\<open>final_muon_analysis.py\<close> computes with IEEE 754 binary64 numbers: numpy
  \<^verbatim>\<open>float64\<close> scalars and arrays, and plain Python floats. A finite double is the real
  number it denotes. Every arithmetic operation rounds its exact result to the nearest
  double, ties to even; a result beyond the largest double becomes an infinity, a result
  below the smallest normal double is rounded on the subnormal grid and can become zero.
  The sign of zero is not modelled. The library functions \<^verbatim>\<open>log\<close>, \<^verbatim>\<open>log10\<close>,
  \<^verbatim>\<open>sqrt\<close> and the powers are taken to round correctly.
\<close>

subsection \<open>Rounding to the nearest double\<close>

definition round_half_even :: "real \<Rightarrow> int" where
  "round_half_even x =
     (if x - of_int \<lfloor>x\<rfloor> < 1 / 2 then \<lfloor>x\<rfloor>
      else if 1 / 2 < x - of_int \<lfloor>x\<rfloor> then \<lfloor>x\<rfloor> + 1
      else if even \<lfloor>x\<rfloor> then \<lfloor>x\<rfloor> else \<lfloor>x\<rfloor> + 1)"

definition f64_exponent :: "real \<Rightarrow> int" where
  \<comment> \<open>the binary exponent of the binade of \<open>x\<close>, not below that of the subnormals\<close>
  "f64_exponent x = max \<lfloor>log 2 \<bar>x\<bar>\<rfloor> (- 1022)"

definition f64_quantum :: "real \<Rightarrow> real" where
  \<comment> \<open>the spacing of the doubles in the binade of \<open>x\<close>: 53 significant bits\<close>
  "f64_quantum x = 2 powr (of_int (f64_exponent x) - 52)"

definition f64_round :: "real \<Rightarrow> real" where
  "f64_round x =
     (if x = 0 then 0 else of_int (round_half_even (x / f64_quantum x)) * f64_quantum x)"

definition f64_max :: real where
  \<comment> \<open>the largest finite double\<close>
  "f64_max = 2 ^ 1024 - 2 ^ 971"

datatype npfloat = Fin real | PInf | NInf | NaN

datatype py_error = ZeroDivisionError | OverflowError | ValueError | IndexError | OtherError

definition f64 :: "real \<Rightarrow> npfloat" where
  \<comment> \<open>the double an exact result becomes\<close>
  "f64 x =
     (if f64_max < f64_round x then PInf
      else if f64_round x < - f64_max then NInf
      else Fin (f64_round x))"

definition is_f64 :: "real \<Rightarrow> bool" where
  \<comment> \<open>\<open>x\<close> is a finite double\<close>
  "is_f64 x = (f64 x = Fin x)"

subsection \<open>Arithmetic on numpy scalars\<close>

text \<open>
  The script silences numpy's warnings (\<^verbatim>\<open>warnings.filterwarnings('ignore')\<close>), so an
  invalid numpy operation yields \<open>NaN\<close> or an infinity and never raises.
\<close>

fun np_neg :: "npfloat \<Rightarrow> npfloat" where
  "np_neg (Fin a) = Fin (- a)"
| "np_neg PInf = NInf"
| "np_neg NInf = PInf"
| "np_neg NaN = NaN"

fun np_add :: "npfloat \<Rightarrow> npfloat \<Rightarrow> npfloat" where
  "np_add (Fin a) (Fin b) = f64 (a + b)"
| "np_add (Fin a) PInf = PInf"
| "np_add (Fin a) NInf = NInf"
| "np_add PInf (Fin b) = PInf"
| "np_add PInf PInf = PInf"
| "np_add PInf NInf = NaN"
| "np_add NInf (Fin b) = NInf"
| "np_add NInf PInf = NaN"
| "np_add NInf NInf = NInf"
| "np_add NaN y = NaN"
| "np_add x NaN = NaN"

definition np_sub :: "npfloat \<Rightarrow> npfloat \<Rightarrow> npfloat" where
  "np_sub x y = np_add x (np_neg y)"

definition signed_inf :: "real \<Rightarrow> npfloat" where
  \<comment> \<open>an infinity scaled by a finite factor: the factor's sign decides, zero is invalid\<close>
  "signed_inf s = (if 0 < s then PInf else if s < 0 then NInf else NaN)"

fun np_mul :: "npfloat \<Rightarrow> npfloat \<Rightarrow> npfloat" where
  "np_mul (Fin a) (Fin b) = f64 (a * b)"
| "np_mul (Fin a) PInf = signed_inf a"
| "np_mul (Fin a) NInf = signed_inf (- a)"
| "np_mul PInf (Fin b) = signed_inf b"
| "np_mul PInf PInf = PInf"
| "np_mul PInf NInf = NInf"
| "np_mul NInf (Fin b) = signed_inf (- b)"
| "np_mul NInf PInf = NInf"
| "np_mul NInf NInf = PInf"
| "np_mul NaN y = NaN"
| "np_mul x NaN = NaN"

fun np_div :: "npfloat \<Rightarrow> npfloat \<Rightarrow> npfloat" where
  "np_div (Fin a) (Fin b) = (if b = 0 then signed_inf a else f64 (a / b))"
| "np_div (Fin a) PInf = Fin 0"
| "np_div (Fin a) NInf = Fin 0"
| "np_div PInf (Fin b) = (if 0 \<le> b then PInf else NInf)"
| "np_div NInf (Fin b) = (if 0 \<le> b then NInf else PInf)"
| "np_div PInf PInf = NaN"
| "np_div PInf NInf = NaN"
| "np_div NInf PInf = NaN"
| "np_div NInf NInf = NaN"
| "np_div NaN y = NaN"
| "np_div x NaN = NaN"

definition np_square :: "npfloat \<Rightarrow> npfloat" where
  \<comment> \<open>\<^verbatim>\<open>x**2\<close> on a numpy scalar\<close>
  "np_square x = np_mul x x"

fun np_sqrt :: "npfloat \<Rightarrow> npfloat" where
  "np_sqrt (Fin a) = (if 0 \<le> a then f64 (sqrt a) else NaN)"
| "np_sqrt PInf = PInf"
| "np_sqrt NInf = NaN"
| "np_sqrt NaN = NaN"

fun np_pow_half :: "npfloat \<Rightarrow> npfloat" where
  \<comment> \<open>\<^verbatim>\<open>x**0.5\<close> on a numpy scalar: C's \<^verbatim>\<open>pow\<close>, invalid on a negative finite base\<close>
  "np_pow_half (Fin a) = (if 0 \<le> a then f64 (sqrt a) else NaN)"
| "np_pow_half PInf = PInf"
| "np_pow_half NInf = PInf"
| "np_pow_half NaN = NaN"

fun np_log :: "npfloat \<Rightarrow> npfloat" where
  "np_log (Fin a) = (if 0 < a then f64 (ln a) else if a = 0 then NInf else NaN)"
| "np_log PInf = PInf"
| "np_log NInf = NaN"
| "np_log NaN = NaN"

fun np_log10 :: "npfloat \<Rightarrow> npfloat" where
  "np_log10 (Fin a) = (if 0 < a then f64 (log 10 a) else if a = 0 then NInf else NaN)"
| "np_log10 PInf = PInf"
| "np_log10 NInf = NaN"
| "np_log10 NaN = NaN"

fun np_exp10 :: "npfloat \<Rightarrow> npfloat" where
  \<comment> \<open>\<^verbatim>\<open>10**x\<close>\<close>
  "np_exp10 (Fin a) = f64 (10 powr a)"
| "np_exp10 PInf = PInf"
| "np_exp10 NInf = Fin 0"
| "np_exp10 NaN = NaN"

fun np_le :: "npfloat \<Rightarrow> npfloat \<Rightarrow> bool" where
  "np_le (Fin a) (Fin b) = (a \<le> b)"
| "np_le (Fin a) PInf = True"
| "np_le (Fin a) NInf = False"
| "np_le PInf (Fin b) = False"
| "np_le PInf PInf = True"
| "np_le PInf NInf = False"
| "np_le NInf (Fin b) = True"
| "np_le NInf PInf = True"
| "np_le NInf NInf = True"
| "np_le NaN y = False"
| "np_le x NaN = False"

fun np_lt :: "npfloat \<Rightarrow> npfloat \<Rightarrow> bool" where
  "np_lt (Fin a) (Fin b) = (a < b)"
| "np_lt (Fin a) PInf = True"
| "np_lt (Fin a) NInf = False"
| "np_lt PInf (Fin b) = False"
| "np_lt PInf PInf = False"
| "np_lt PInf NInf = False"
| "np_lt NInf (Fin b) = True"
| "np_lt NInf PInf = True"
| "np_lt NInf NInf = False"
| "np_lt NaN y = False"
| "np_lt x NaN = False"

definition np_ge :: "npfloat \<Rightarrow> npfloat \<Rightarrow> bool" where
  "np_ge x y = np_le y x"

definition np_gt :: "npfloat \<Rightarrow> npfloat \<Rightarrow> bool" where
  "np_gt x y = np_lt y x"

definition np_isnan :: "npfloat \<Rightarrow> bool" where
  "np_isnan x = (x = NaN)"

subsection \<open>Where plain Python floats differ\<close>

text \<open>
  Python's own float arithmetic rounds as numpy's does, but it raises where numpy warns:
  a division by zero raises \<^verbatim>\<open>ZeroDivisionError\<close> and a power that overflows raises
  \<^verbatim>\<open>OverflowError\<close>.
\<close>

definition py_div :: "npfloat \<Rightarrow> npfloat \<Rightarrow> py_error + npfloat" where
  "py_div x y = (if y = Fin 0 then Inl ZeroDivisionError else Inr (np_div x y))"

definition py_square :: "npfloat \<Rightarrow> py_error + npfloat" where
  \<comment> \<open>\<^verbatim>\<open>x**2\<close> on a Python float\<close>
  "py_square x =
     (case x of
        Fin a \<Rightarrow> if f64 (a * a) = PInf then Inl OverflowError else Inr (f64 (a * a))
      | PInf \<Rightarrow> Inr PInf
      | NInf \<Rightarrow> Inr PInf
      | NaN \<Rightarrow> Inr NaN)"

definition py_max :: "npfloat \<Rightarrow> npfloat \<Rightarrow> npfloat" where
  \<comment> \<open>Python's builtin \<^verbatim>\<open>max(a, b)\<close>: \<^verbatim>\<open>b\<close> only when \<^verbatim>\<open>b > a\<close> holds\<close>
  "py_max a b = (if np_gt b a then b else a)"

section \<open>The Bethe-Bloch evaluator\<close>

text \<open>
  \<^verbatim>\<open>bethe_bloch_muon(E_MeV, I_eV=322.0)\<close>. The only call of the script passes an
  element of \<^verbatim>\<open>np.logspace(0, 9, 2000)\<close>, a numpy scalar, and leaves \<^verbatim>\<open>I_eV\<close> at its
  default, a Python float. A decimal literal of the source is the double nearest to it.
  The local variables of the function are definitions here, in the order the source
  computes them; an error is the exception the statement raises.
\<close>

definition m_mu :: real where "m_mu = f64_round 105.66"
definition m_e :: real where "m_e = f64_round 0.511"
definition Z :: real where "Z = 29"
definition A :: real where "A = f64_round 63.5"
definition rho :: real where "rho = f64_round 8.96"
definition K :: real where "K = f64_round 0.307075"
definition omega_p :: real where "omega_p = f64_round (28.8 / 1000000)"

definition gamma_of :: "npfloat \<Rightarrow> npfloat" where
  "gamma_of E_MeV = np_div (np_add E_MeV (Fin m_mu)) (Fin m_mu)"

definition beta2_of :: "npfloat \<Rightarrow> npfloat" where
  "beta2_of E_MeV = np_sub (Fin 1) (np_div (Fin 1) (np_square (gamma_of E_MeV)))"

definition beta_of :: "npfloat \<Rightarrow> npfloat" where
  "beta_of E_MeV = np_sqrt (beta2_of E_MeV)"

definition first_guard :: "npfloat \<Rightarrow> bool" where
  \<comment> \<open>\<^verbatim>\<open>beta2 <= 0 or beta2 >= 1\<close>\<close>
  "first_guard E_MeV = (np_le (beta2_of E_MeV) (Fin 0) \<or> np_ge (beta2_of E_MeV) (Fin 1))"

definition T_max_of :: "npfloat \<Rightarrow> py_error + npfloat" where
  "T_max_of E_MeV =
     (case py_square (np_div (Fin m_e) (Fin m_mu)) of
        Inl e \<Rightarrow> Inl e
      | Inr ratio2 \<Rightarrow>
          Inr (np_div
                 (np_mul (np_mul (np_mul (Fin 2) (Fin m_e)) (beta2_of E_MeV))
                         (np_square (gamma_of E_MeV)))
                 (np_add
                    (np_add (Fin 1)
                       (np_div (np_mul (np_mul (Fin 2) (gamma_of E_MeV)) (Fin m_e)) (Fin m_mu)))
                    ratio2)))"

definition I_MeV_of :: "real \<Rightarrow> npfloat" where
  "I_MeV_of I_eV = np_mul (Fin I_eV) (Fin (f64_round (1 / 1000000)))"

definition argument_of :: "npfloat \<Rightarrow> real \<Rightarrow> py_error + npfloat" where
  "argument_of E_MeV I_eV =
     (case T_max_of E_MeV of
        Inl e \<Rightarrow> Inl e
      | Inr T_max \<Rightarrow>
          (case py_square (I_MeV_of I_eV) of
             Inl e \<Rightarrow> Inl e
           | Inr I2 \<Rightarrow>
               Inr (np_div
                      (np_mul
                         (np_mul (np_mul (np_mul (Fin 2) (Fin m_e)) (beta2_of E_MeV))
                                 (np_square (gamma_of E_MeV)))
                         T_max)
                      I2)))"

definition K_Z_A_rho :: npfloat where
  \<comment> \<open>\<^verbatim>\<open>K * Z/A * rho\<close>\<close>
  "K_Z_A_rho = np_mul (np_div (np_mul (Fin K) (Fin Z)) (Fin A)) (Fin rho)"

definition bb_term_of :: "npfloat \<Rightarrow> npfloat \<Rightarrow> npfloat" where
  \<comment> \<open>\<^verbatim>\<open>bb_term\<close>, from the energy and the value of \<^verbatim>\<open>argument\<close>\<close>
  "bb_term_of E_MeV argument =
     np_mul
       (np_mul K_Z_A_rho (np_div (Fin 1) (beta2_of E_MeV)))
       (np_sub (np_mul (Fin (1 / 2)) (np_log argument)) (beta2_of E_MeV))"

definition delta_of :: "npfloat \<Rightarrow> real \<Rightarrow> py_error + npfloat" where
  "delta_of E_MeV I_eV =
     (if np_gt E_MeV (Fin 100) then
        (case py_div (Fin omega_p) (I_MeV_of I_eV) of
           Inl e \<Rightarrow> Inl e
         | Inr r \<Rightarrow>
             Inr (py_max (Fin 0)
                    (np_sub
                       (np_add (np_log (np_mul (beta_of E_MeV) (gamma_of E_MeV))) (np_log r))
                       (Fin (1 / 2)))))
      else Inr (Fin 0))"

definition shell_correction_of :: "npfloat \<Rightarrow> npfloat" where
  "shell_correction_of E_MeV =
     (if np_lt E_MeV (Fin 100) then
        np_mul
          (np_mul (np_mul K_Z_A_rho (np_div (Fin 1) (beta2_of E_MeV))) (Fin (f64_round (1 / 10))))
          (np_pow_half (np_div (Fin 100) E_MeV))
      else Fin 0)"

definition bethe_bloch_muon :: "npfloat \<Rightarrow> real \<Rightarrow> py_error + npfloat" where
  "bethe_bloch_muon E_MeV I_eV =
     (if first_guard E_MeV then Inr NaN
      else (case argument_of E_MeV I_eV of
              Inl e \<Rightarrow> Inl e
            | Inr argument \<Rightarrow>
                if np_le argument (Fin 0) then Inr NaN
                else (case delta_of E_MeV I_eV of
                        Inl e \<Rightarrow> Inl e
                      | Inr delta \<Rightarrow>
                          Inr (np_sub (np_sub (bb_term_of E_MeV argument) delta)
                                      (shell_correction_of E_MeV)))))"

section \<open>The theoretical curve\<close>

text \<open>
  Lines 98 to 116: the loop over \<^verbatim>\<open>E_theory\<close> with its \<^verbatim>\<open>try\<close>/\<^verbatim>\<open>except\<close>. The evaluator
  is an argument, so that a raising evaluator can be put in its place; the script's own
  is \<open>\<lambda>E. bethe_bloch_muon E 322\<close>. \<open>None\<close> is Python's \<^verbatim>\<open>None\<close>.
\<close>

definition np_linspace :: "npfloat \<Rightarrow> npfloat \<Rightarrow> nat \<Rightarrow> npfloat list" where
  \<comment> \<open>\<^verbatim>\<open>np.linspace(start, stop, num)\<close>: \<^verbatim>\<open>arange(num) * step + start\<close>, last entry set to \<^verbatim>\<open>stop\<close>\<close>
  "np_linspace start stop num =
     (map (\<lambda>i. np_add (np_mul (Fin (real i)) (np_div (np_sub stop start) (Fin (real (num - 1)))))
                        start)
          [0..<num])
     [num - 1 := stop]"

definition np_logspace :: "npfloat \<Rightarrow> npfloat \<Rightarrow> nat \<Rightarrow> npfloat list" where
  "np_logspace start stop num = map np_exp10 (np_linspace start stop num)"

definition E_theory :: "npfloat list" where
  "E_theory = np_logspace (Fin 0) (Fin 9) 2000"

definition theory_point :: "(npfloat \<Rightarrow> py_error + npfloat) \<Rightarrow> npfloat \<Rightarrow> npfloat option" where
  "theory_point f E =
     (case f E of
        Inl e \<Rightarrow> None
      | Inr loss \<Rightarrow> if \<not> np_isnan loss \<and> np_gt loss (Fin 0) then Some loss else None)"

definition theory_loss :: "(npfloat \<Rightarrow> py_error + npfloat) \<Rightarrow> npfloat list \<Rightarrow> npfloat option list" where
  "theory_loss f grid = map (theory_point f) grid"

definition valid_points ::
  "(npfloat \<Rightarrow> py_error + npfloat) \<Rightarrow> npfloat list \<Rightarrow> (npfloat \<times> npfloat) list" where
  \<comment> \<open>the pairs \<^verbatim>\<open>(E_valid[k], theory_valid[k])\<close>\<close>
  "valid_points f grid =
     List.map_filter (\<lambda>(E, loss). case loss of None \<Rightarrow> None | Some v \<Rightarrow> Some (E, v))
       (zip grid (theory_loss f grid))"

definition E_valid :: "(npfloat \<Rightarrow> py_error + npfloat) \<Rightarrow> npfloat list \<Rightarrow> npfloat list" where
  "E_valid f grid = map fst (valid_points f grid)"

definition theory_valid :: "(npfloat \<Rightarrow> py_error + npfloat) \<Rightarrow> npfloat list \<Rightarrow> npfloat list" where
  "theory_valid f grid = map snd (valid_points f grid)"

definition script_theory_curve :: "(npfloat \<times> npfloat) list" where
  \<comment> \<open>the curve the script plots: the default \<^verbatim>\<open>I_eV\<close> on the grid \<^verbatim>\<open>E_theory\<close>\<close>
  "script_theory_curve = valid_points (\<lambda>E. bethe_bloch_muon E 322) E_theory"

section \<open>The simulated samples\<close>

text \<open>
  \<^verbatim>\<open>df\<close> is the table read from the CSV file: one row per sample, the columns
  \<^verbatim>\<open>Energy_MeV\<close> and \<^verbatim>\<open>Total_Deposit_MeV\<close>. Its cells are taken to be finite numbers.
  A boolean mask selects from an array as numpy's \<^verbatim>\<open>a[mask]\<close> does.
\<close>

type_synonym dataframe = "(real \<times> real) list"

definition energies :: "dataframe \<Rightarrow> real list" where
  "energies df = map fst df"

definition energy_loss :: "dataframe \<Rightarrow> real list" where
  "energy_loss df = map snd df"

definition np_select :: "bool list \<Rightarrow> 'a list \<Rightarrow> 'a list" where
  "np_select msk xs = map snd (filter fst (zip msk xs))"

definition np_count :: "bool list \<Rightarrow> nat" where
  \<comment> \<open>\<^verbatim>\<open>np.sum(mask)\<close>\<close>
  "np_count msk = length (filter (\<lambda>b. b) msk)"

definition band_mask :: "real \<Rightarrow> real \<Rightarrow> real list \<Rightarrow> bool list" where
  \<comment> \<open>\<^verbatim>\<open>(a >= E_min) & (a <= E_max)\<close>\<close>
  "band_mask E_min E_max a = map (\<lambda>e. E_min \<le> e \<and> e \<le> E_max) a"

definition band_rows :: "real \<Rightarrow> real \<Rightarrow> dataframe \<Rightarrow> dataframe" where
  \<comment> \<open>the rows whose energy lies in the closed band: what the mask of the band selects\<close>
  "band_rows E_min E_max df = filter (\<lambda>row. E_min \<le> fst row \<and> fst row \<le> E_max) df"

fun np_minimum :: "npfloat \<Rightarrow> npfloat \<Rightarrow> npfloat" where
  "np_minimum NaN y = NaN"
| "np_minimum x NaN = NaN"
| "np_minimum x y = (if np_le x y then x else y)"

fun np_maximum :: "npfloat \<Rightarrow> npfloat \<Rightarrow> npfloat" where
  "np_maximum NaN y = NaN"
| "np_maximum x NaN = NaN"
| "np_maximum x y = (if np_le y x then x else y)"

definition np_amin :: "npfloat list \<Rightarrow> py_error + npfloat" where
  \<comment> \<open>\<^verbatim>\<open>a.min()\<close>: raises on an empty array\<close>
  "np_amin a = (case a of [] \<Rightarrow> Inl ValueError | x # rest \<Rightarrow> Inr (foldl np_minimum x rest))"

definition np_amax :: "npfloat list \<Rightarrow> py_error + npfloat" where
  "np_amax a = (case a of [] \<Rightarrow> Inl ValueError | x # rest \<Rightarrow> Inr (foldl np_maximum x rest))"

fun np_argmin_from :: "real \<Rightarrow> nat \<Rightarrow> nat \<Rightarrow> real list \<Rightarrow> nat" where
  \<comment> \<open>the scan of \<^verbatim>\<open>np.argmin\<close>: best value, its index, the next index, the rest\<close>
  "np_argmin_from best best_idx i [] = best_idx"
| "np_argmin_from best best_idx i (x # xs) =
     (if x < best then np_argmin_from x i (Suc i) xs
      else np_argmin_from best best_idx (Suc i) xs)"

definition np_argmin :: "real list \<Rightarrow> py_error + nat" where
  \<comment> \<open>\<^verbatim>\<open>np.argmin(a)\<close>: raises on an empty array\<close>
  "np_argmin a = (case a of [] \<Rightarrow> Inl ValueError | x # rest \<Rightarrow> Inr (np_argmin_from x 0 1 rest))"

definition py_get :: "'a list \<Rightarrow> nat \<Rightarrow> py_error + 'a" where
  \<comment> \<open>\<^verbatim>\<open>a[i]\<close> for a non-negative index\<close>
  "py_get a i = (if i < length a then Inr (a ! i) else Inl IndexError)"

definition np_min :: "real list \<Rightarrow> real" where
  \<comment> \<open>\<^verbatim>\<open>np.min\<close>, called on non-empty arrays only\<close>
  "np_min a = foldl min (hd a) (tl a)"

definition np_max :: "real list \<Rightarrow> real" where
  "np_max a = foldl max (hd a) (tl a)"


section \<open>The library calls\<close>

text \<open>
  \<^verbatim>\<open>scipy.interpolate.interp1d\<close>, \<^verbatim>\<open>np.polyfit\<close>, \<^verbatim>\<open>np.mean\<close> and \<^verbatim>\<open>np.std\<close> are
  not code of the script, and the order in which they round is theirs. An \<^verbatim>\<open>interp1d\<close>
  object is the record of the arguments it was built from; evaluating it on a point is an
  argument \<open>ev\<close> of every function that draws a smooth curve. The degree-1 call
  \<^verbatim>\<open>np.polyfit(x, y, 1)\<close> is an argument \<open>polyfit1\<close>, giving the pair
  \<^verbatim>\<open>(slope, intercept)\<close>; \<^verbatim>\<open>np.mean\<close> and \<^verbatim>\<open>np.std\<close> are the arguments \<open>np_mean\<close> and
  \<open>np_std\<close>. All four are taken to return.
\<close>

datatype interp_kind = Cubic

record interp1d =
  fit_x :: "npfloat list"
  fit_y :: "npfloat list"
  kind :: interp_kind
  extrapolate :: bool

datatype artist =
  SmoothLine "npfloat list" "npfloat list"
| DataMarkers "real list" "real list"

section \<open>The full-range curve (lines 77 to 86)\<close>





section \<open>The minimum region (lines 131 to 147)\<close>

definition E_min_region :: "dataframe \<Rightarrow> real list" where
  "E_min_region df = np_select (band_mask 100 5000 (energies df)) (energies df)"

definition loss_min_region :: "dataframe \<Rightarrow> real list" where
  "loss_min_region df = np_select (band_mask 100 5000 (energies df)) (energy_loss df)"

definition interp_min :: "dataframe \<Rightarrow> interp1d" where
  "interp_min df =
     \<lparr>fit_x = map Fin (E_min_region df), fit_y = map Fin (loss_min_region df),
      kind = Cubic, extrapolate = False\<rparr>"

definition min_smooth ::
  "(interp1d \<Rightarrow> npfloat \<Rightarrow> npfloat) \<Rightarrow> dataframe \<Rightarrow> py_error + (npfloat list \<times> npfloat list)" where
  \<comment> \<open>the pair \<^verbatim>\<open>(E_min_smooth, loss_min_smooth)\<close>\<close>
  "min_smooth ev df =
     (case np_amin (map Fin (E_min_region df)) of
        Inl e \<Rightarrow> Inl e
      | Inr lo \<Rightarrow>
          (case np_amax (map Fin (E_min_region df)) of
             Inl e \<Rightarrow> Inl e
           | Inr hi \<Rightarrow>
               (let E_min_smooth = np_linspace lo hi 200
                in Inr (E_min_smooth, map (ev (interp_min df)) E_min_smooth))))"

definition plot_minimum_region ::
  "(interp1d \<Rightarrow> npfloat \<Rightarrow> npfloat) \<Rightarrow> dataframe \<Rightarrow> py_error + artist list" where
  "plot_minimum_region ev df =
     (if 3 < length (E_min_region df) then
        (case min_smooth ev df of
           Inl e \<Rightarrow> Inl e
         | Inr (xs, ys) \<Rightarrow>
             Inr [SmoothLine xs ys, DataMarkers (E_min_region df) (loss_min_region df)])
      else Inr [DataMarkers (E_min_region df) (loss_min_region df)])"

definition find_minimum :: "dataframe \<Rightarrow> py_error + (real \<times> real)" where
  \<comment> \<open>the pair \<^verbatim>\<open>(min_energy, min_loss)\<close>\<close>
  "find_minimum df =
     (case np_argmin (loss_min_region df) of
        Inl e \<Rightarrow> Inl e
      | Inr min_idx \<Rightarrow>
          (case py_get (E_min_region df) min_idx of
             Inl e \<Rightarrow> Inl e
           | Inr min_energy \<Rightarrow>
               (case py_get (loss_min_region df) min_idx of
                  Inl e \<Rightarrow> Inl e
                | Inr min_loss \<Rightarrow> Inr (min_energy, min_loss))))"

section \<open>The relativistic region (lines 160 to 197)\<close>

definition E_rel :: "dataframe \<Rightarrow> real list" where
  "E_rel df = np_select (map (\<lambda>e. 1000 \<le> e) (energies df)) (energies df)"

definition loss_rel :: "dataframe \<Rightarrow> real list" where
  "loss_rel df = np_select (map (\<lambda>e. 1000 \<le> e) (energies df)) (energy_loss df)"

definition interp_rel :: "dataframe \<Rightarrow> interp1d" where
  "interp_rel df =
     \<lparr>fit_x = map (\<lambda>e. np_log10 (Fin e)) (E_rel df),
      fit_y = map (\<lambda>l. np_log10 (Fin l)) (loss_rel df),
      kind = Cubic, extrapolate = False\<rparr>"

definition rel_smooth ::
  "(interp1d \<Rightarrow> npfloat \<Rightarrow> npfloat) \<Rightarrow> dataframe \<Rightarrow> py_error + (npfloat list \<times> npfloat list)" where
  \<comment> \<open>the pair \<^verbatim>\<open>(E_rel_smooth, loss_rel_smooth)\<close>\<close>
  "rel_smooth ev df =
     (case np_amin (map Fin (E_rel df)) of
        Inl e \<Rightarrow> Inl e
      | Inr lo \<Rightarrow>
          (case np_amax (map Fin (E_rel df)) of
             Inl e \<Rightarrow> Inl e
           | Inr hi \<Rightarrow>
               (let log_E_rel_smooth = np_linspace (np_log10 lo) (np_log10 hi) 300
                in Inr (map np_exp10 log_E_rel_smooth,
                        map (\<lambda>x. np_exp10 (ev (interp_rel df) x)) log_E_rel_smooth))))"

definition plot_relativistic ::
  "(interp1d \<Rightarrow> npfloat \<Rightarrow> npfloat) \<Rightarrow> dataframe \<Rightarrow> py_error + artist list" where
  "plot_relativistic ev df =
     (if 3 < length (E_rel df) then
        (case rel_smooth ev df of
           Inl e \<Rightarrow> Inl e
         | Inr (xs, ys) \<Rightarrow> Inr [SmoothLine xs ys, DataMarkers (E_rel df) (loss_rel df)])
      else Inr [DataMarkers (E_rel df) (loss_rel df)])"

record trend_line =
  tl_label :: string
  tl_slope :: npfloat
  tl_intercept :: npfloat
  tl_E_fit :: "npfloat list"
  tl_loss_fit :: "npfloat list"

definition sub_regions :: "(real \<times> real \<times> string) list" where
  "sub_regions =
     [(1000, 10000, ''1-10 GeV''),
      (10000, 1000000, ''10 GeV - 1 TeV''),
      (1000000, 1000000000, ''1 TeV - 1 PeV'')]"

definition fit_sub_region ::
  "(npfloat list \<Rightarrow> npfloat list \<Rightarrow> npfloat \<times> npfloat) \<Rightarrow> real list \<Rightarrow> real list
     \<Rightarrow> real \<times> real \<times> string \<Rightarrow> trend_line option" where
  \<comment> \<open>one pass of the loop of lines 185 to 197; \<open>None\<close> when the pass draws nothing\<close>
  "fit_sub_region polyfit1 E_rel_a loss_rel_a band =
     (case band of (E_min, E_max, label) \<Rightarrow>
        (let msk = band_mask E_min E_max E_rel_a in
         if 2 < np_count msk then
           (let E_sub = np_select msk E_rel_a;
                loss_sub = np_select msk loss_rel_a;
                fit = polyfit1 (map (\<lambda>e. np_log10 (Fin e)) E_sub)
                               (map (\<lambda>l. np_log10 (Fin l)) loss_sub);
                E_fit = np_logspace (np_log10 (Fin E_min)) (np_log10 (Fin E_max)) 50
            in Some \<lparr>tl_label = label, tl_slope = fst fit, tl_intercept = snd fit,
                     tl_E_fit = E_fit,
                     tl_loss_fit =
                       map (\<lambda>x. np_exp10 (np_add (np_mul (fst fit) (np_log10 x)) (snd fit)))
                           E_fit\<rparr>)
         else None))"

definition relativistic_trends ::
  "(npfloat list \<Rightarrow> npfloat list \<Rightarrow> npfloat \<times> npfloat) \<Rightarrow> dataframe \<Rightarrow> trend_line list" where
  \<comment> \<open>lines 176 to 197: the trend lines drawn, in the order of \<open>sub_regions\<close>\<close>
  "relativistic_trends polyfit1 df =
     (if 5 < length (E_rel df) then
        List.map_filter (fit_sub_region polyfit1 (E_rel df) (loss_rel df)) sub_regions
      else [])"

text \<open>
  What the specification calls a least-squares line of the points \<open>(xs, ys)\<close>: a slope and
  an intercept whose sum of squared residuals no other line undercuts. This is the
  specification's wording, set beside the script's call of \<^verbatim>\<open>np.polyfit\<close>.
\<close>

definition squared_residuals :: "real list \<Rightarrow> real list \<Rightarrow> real \<Rightarrow> real \<Rightarrow> real" where
  "squared_residuals xs ys slope intercept =
     sum_list (map (\<lambda>p. (snd p - (slope * fst p + intercept))\<^sup>2) (zip xs ys))"

definition least_squares_line :: "npfloat list \<Rightarrow> npfloat list \<Rightarrow> npfloat \<times> npfloat \<Rightarrow> bool" where
  "least_squares_line X Y fit =
     (\<exists>xs ys slope intercept.
        X = map Fin xs \<and> Y = map Fin ys \<and> length xs = length ys
        \<and> fit = (Fin slope, Fin intercept)
        \<and> (\<forall>s i. squared_residuals xs ys slope intercept \<le> squared_residuals xs ys s i))"

section \<open>The zoom on the minimum (lines 267 to 277)\<close>

definition E_zoom :: "dataframe \<Rightarrow> real list" where
  "E_zoom df = np_select (band_mask 200 2000 (energies df)) (energies df)"

definition loss_zoom :: "dataframe \<Rightarrow> real list" where
  "loss_zoom df = np_select (band_mask 200 2000 (energies df)) (energy_loss df)"

definition interp_zoom :: "dataframe \<Rightarrow> interp1d" where
  "interp_zoom df =
     \<lparr>fit_x = map Fin (E_zoom df), fit_y = map Fin (loss_zoom df),
      kind = Cubic, extrapolate = False\<rparr>"

definition zoom_smooth ::
  "(interp1d \<Rightarrow> npfloat \<Rightarrow> npfloat) \<Rightarrow> dataframe \<Rightarrow> py_error + (npfloat list \<times> npfloat list)" where
  \<comment> \<open>the pair \<^verbatim>\<open>(E_zoom_smooth, loss_zoom_smooth)\<close>\<close>
  "zoom_smooth ev df =
     (case np_amin (map Fin (E_zoom df)) of
        Inl e \<Rightarrow> Inl e
      | Inr lo \<Rightarrow>
          (case np_amax (map Fin (E_zoom df)) of
             Inl e \<Rightarrow> Inl e
           | Inr hi \<Rightarrow>
               (let E_zoom_smooth = np_linspace lo hi 500
                in Inr (E_zoom_smooth, map (ev (interp_zoom df)) E_zoom_smooth))))"

definition plot_zoom ::
  "(interp1d \<Rightarrow> npfloat \<Rightarrow> npfloat) \<Rightarrow> dataframe \<Rightarrow> py_error + artist list" where
  "plot_zoom ev df =
     (if 3 < length (E_zoom df) then
        (case zoom_smooth ev df of
           Inl e \<Rightarrow> Inl e
         | Inr (xs, ys) \<Rightarrow> Inr [SmoothLine xs ys, DataMarkers (E_zoom df) (loss_zoom df)])
      else Inr [DataMarkers (E_zoom df) (loss_zoom df)])"


section \<open>The printed report\<close>

text \<open>
  A printed row is the record of the values handed to the format strings; the formatting
  itself is not modelled. The band names are written without their accents.
\<close>

record detailed_row =
  dr_name :: string
  dr_first_energy :: real
  dr_last_energy :: real
  dr_count :: nat
  dr_avg_loss :: npfloat
  dr_std_loss :: npfloat
  dr_min_loss :: real
  dr_max_loss :: real
  dr_increase_factor :: npfloat
  dr_description :: string

definition regions_detailed :: "(string \<times> real \<times> real \<times> string) list" where
  "regions_detailed =
     [(''Muy baja energia'', 1, 50, ''1/beta^2 dominante''),
      (''Baja energia'', 50, 200, ''Transicion a relativistico''),
      (''Region del minimo'', 200, 1000, ''Minimo de ionizacion''),
      (''Relativistica'', 1000, 50000, ''Plateau relativistico''),
      (''Ultra-alta GeV'', 50000, 1000000, ''Efectos de densidad''),
      (''TeV scale'', 1000000, 100000000, ''Inicio efectos radiativos''),
      (''PeV scale'', 100000000, 1000000000, ''Regimen ultra-extremo'')]"

definition detailed_row_of ::
  "(real list \<Rightarrow> npfloat) \<Rightarrow> (real list \<Rightarrow> npfloat) \<Rightarrow> dataframe \<Rightarrow> real
     \<Rightarrow> string \<times> real \<times> real \<times> string \<Rightarrow> detailed_row option" where
  \<comment> \<open>one pass of the loop of lines 346 to 362; \<open>None\<close> when the pass prints nothing\<close>
  "detailed_row_of np_mean np_std df min_loss band =
     (case band of (name, E_min, E_max, description) \<Rightarrow>
        (let msk = band_mask E_min E_max (energies df) in
         if 0 < np_count msk then
           (let region_energies = np_select msk (energies df);
                region_losses = np_select msk (energy_loss df);
                avg_loss = np_mean region_losses
            in Some \<lparr>dr_name = name,
                     dr_first_energy = hd region_energies,
                     dr_last_energy = last region_energies,
                     dr_count = length region_energies,
                     dr_avg_loss = avg_loss,
                     dr_std_loss = np_std region_losses,
                     dr_min_loss = np_min region_losses,
                     dr_max_loss = np_max region_losses,
                     dr_increase_factor = np_div avg_loss (Fin min_loss),
                     dr_description = description\<rparr>)
         else None))"

definition detailed_report ::
  "(real list \<Rightarrow> npfloat) \<Rightarrow> (real list \<Rightarrow> npfloat) \<Rightarrow> dataframe \<Rightarrow> real
     \<Rightarrow> detailed_row list" where
  "detailed_report np_mean np_std df min_loss =
     List.map_filter (detailed_row_of np_mean np_std df min_loss) regions_detailed"

record range_trend =
  rt_name :: string
  rt_slope :: npfloat
  rt_increase_in_range :: npfloat
  rt_increase_from_min :: npfloat

definition ranges :: "(real \<times> real \<times> string) list" where
  "ranges =
     [(1000000, 100000000, ''TeV scale (1-100 TeV)''),
      (100000000, 1000000000, ''Ultra-high (100 TeV - 1 PeV)'')]"

definition fit_range ::
  "(npfloat list \<Rightarrow> npfloat list \<Rightarrow> npfloat \<times> npfloat) \<Rightarrow> real list \<Rightarrow> real list \<Rightarrow> real
     \<Rightarrow> real \<times> real \<times> string \<Rightarrow> range_trend option" where
  \<comment> \<open>one pass of the loop of lines 378 to 397 (the closing verdict line is left out)\<close>
  "fit_range polyfit1 tev_energies tev_losses min_loss band =
     (case band of (E_min, E_max, range_name) \<Rightarrow>
        (let range_mask = band_mask E_min E_max tev_energies in
         if 2 < np_count range_mask then
           (let range_E = np_select range_mask tev_energies;
                range_loss = np_select range_mask tev_losses;
                fit = polyfit1 (map (\<lambda>e. np_log10 (Fin e)) range_E)
                               (map (\<lambda>l. np_log10 (Fin l)) range_loss)
            in Some \<lparr>rt_name = range_name, rt_slope = fst fit,
                     rt_increase_in_range = np_div (Fin (last range_loss)) (Fin (hd range_loss)),
                     rt_increase_from_min = np_div (Fin (last range_loss)) (Fin min_loss)\<rparr>)
         else None))"

definition range_trends ::
  "(npfloat list \<Rightarrow> npfloat list \<Rightarrow> npfloat \<times> npfloat) \<Rightarrow> dataframe \<Rightarrow> real
     \<Rightarrow> range_trend list" where
  \<comment> \<open>lines 367 to 397\<close>
  "range_trends polyfit1 df min_loss =
     (let ultra_high = map (\<lambda>e. 1000000 \<le> e) (energies df) in
      if 2 < np_count ultra_high then
        List.map_filter
          (fit_range polyfit1 (np_select ultra_high (energies df))
             (np_select ultra_high (energy_loss df)) min_loss)
          ranges
      else [])"

record summary_row =
  sr_name :: string
  sr_first_energy :: real
  sr_last_energy :: real
  sr_avg_loss :: npfloat
  sr_increase_factor :: npfloat

definition regions :: "(string \<times> real \<times> real) list" where
  "regions =
     [(''No-relativistica'', 1, 100),
      (''Relativistica'', 100, 10000),
      (''Ultra-relativistica'', 10000, 1000000000)]"

definition summary_row_of ::
  "(real list \<Rightarrow> npfloat) \<Rightarrow> dataframe \<Rightarrow> real \<Rightarrow> string \<times> real \<times> real
     \<Rightarrow> summary_row option" where
  \<comment> \<open>one pass of the loop of lines 449 to 461\<close>
  "summary_row_of np_mean df min_loss band =
     (case band of (name, E_min, E_max) \<Rightarrow>
        (let msk = band_mask E_min E_max (energies df) in
         if 1 < np_count msk then
           (let region_energies = np_select msk (energies df);
                region_losses = np_select msk (energy_loss df)
            in Some \<lparr>sr_name = name,
                     sr_first_energy = hd region_energies,
                     sr_last_energy = last region_energies,
                     sr_avg_loss = np_mean region_losses,
                     sr_increase_factor = np_div (Fin (last region_losses)) (Fin min_loss)\<rparr>)
         else None))"

definition summary_report ::
  "(real list \<Rightarrow> npfloat) \<Rightarrow> dataframe \<Rightarrow> real \<Rightarrow> summary_row list" where
  "summary_report np_mean df min_loss =
     List.map_filter (summary_row_of np_mean df min_loss) regions"

section \<open>The run from the minimum plot onward\<close>

text \<open>
  The statements of the script from line 131 to its end, in their order, as far as they
  compute the curves, the minimum, the trend lines and the report rows above. An error
  is the exception that ends the run: nothing after it is computed.
\<close>

record run_result =
  r_ax2 :: "artist list"
  r_min_energy :: real
  r_min_loss :: real
  r_ax3 :: "artist list"
  r_trends :: "trend_line list"
  r_ax_min :: "artist list"
  r_detailed :: "detailed_row list"
  r_range_trends :: "range_trend list"
  r_summary :: "summary_row list"

definition run_from_minimum_plot ::
  "(interp1d \<Rightarrow> npfloat \<Rightarrow> npfloat) \<Rightarrow> (npfloat list \<Rightarrow> npfloat list \<Rightarrow> npfloat \<times> npfloat)
     \<Rightarrow> (real list \<Rightarrow> npfloat) \<Rightarrow> (real list \<Rightarrow> npfloat) \<Rightarrow> dataframe
     \<Rightarrow> py_error + run_result" where
  "run_from_minimum_plot ev polyfit1 np_mean np_std df =
     (case plot_minimum_region ev df of
        Inl e \<Rightarrow> Inl e
      | Inr ax2 \<Rightarrow>
          (case find_minimum df of
             Inl e \<Rightarrow> Inl e
           | Inr (min_energy, min_loss) \<Rightarrow>
               (case plot_relativistic ev df of
                  Inl e \<Rightarrow> Inl e
                | Inr ax3 \<Rightarrow>
                    (case plot_zoom ev df of
                       Inl e \<Rightarrow> Inl e
                     | Inr ax_min \<Rightarrow>
                         Inr \<lparr>r_ax2 = ax2, r_min_energy = min_energy, r_min_loss = min_loss,
                              r_ax3 = ax3, r_trends = relativistic_trends polyfit1 df,
                              r_ax_min = ax_min,
                              r_detailed = detailed_report np_mean np_std df min_loss,
                              r_range_trends = range_trends polyfit1 df min_loss,
                              r_summary = summary_report np_mean df min_loss\<rparr>))))"


section \<open>Properties of the rounding\<close>

lemma round_half_even_of_int [simp]: "round_half_even (of_int n) = n"
  by (simp add: round_half_even_def)

lemma round_half_even_ge: "of_int n \<le> x \<Longrightarrow> n \<le> round_half_even x"
proof -
  assume "of_int n \<le> x"
  then have "n \<le> \<lfloor>x\<rfloor>" by (simp add: le_floor_iff)
  then show ?thesis by (auto simp: round_half_even_def)
qed

lemma round_half_even_le: "x \<le> of_int n \<Longrightarrow> round_half_even x \<le> n"
proof (cases "x = of_int n")
  case True
  then show ?thesis by simp
next
  case False
  assume "x \<le> of_int n"
  with False have "x < of_int n" by simp
  then have "\<lfloor>x\<rfloor> < n" by (simp add: floor_less_iff)
  then show ?thesis by (auto simp: round_half_even_def)
qed

lemma round_half_even_close: "\<bar>x - of_int n\<bar> < 1 / 2 \<Longrightarrow> round_half_even x = n"
proof -
  assume a: "\<bar>x - of_int n\<bar> < 1 / 2"
  have "\<lfloor>x\<rfloor> = n \<or> \<lfloor>x\<rfloor> = n - 1"
  proof -
    have "real_of_int n - 1 \<le> x" "x < real_of_int n + 1" using a by linarith+
    then have "n - 1 \<le> \<lfloor>x\<rfloor>" "\<lfloor>x\<rfloor> < n + 1" by linarith+
    then show ?thesis by linarith
  qed
  then show ?thesis
  proof
    assume f: "\<lfloor>x\<rfloor> = n"
    then have "x - of_int \<lfloor>x\<rfloor> < 1 / 2" using a by linarith
    then show ?thesis using f by (simp add: round_half_even_def)
  next
    assume f: "\<lfloor>x\<rfloor> = n - 1"
    have "- (1 / 2) < x - real_of_int n" using a by linarith
    then have "1 / 2 < x - of_int \<lfloor>x\<rfloor>" unfolding f by simp
    then show ?thesis using f by (simp add: round_half_even_def)
  qed
qed

lemma f64_quantum_pos: "0 < f64_quantum x"
  by (simp add: f64_quantum_def)

lemma floor_log2_bounds:
  assumes "x \<noteq> 0"
  shows "2 powr of_int \<lfloor>log 2 \<bar>x\<bar>\<rfloor> \<le> \<bar>x\<bar>" and "\<bar>x\<bar> < 2 powr (of_int \<lfloor>log 2 \<bar>x\<bar>\<rfloor> + 1)"
proof -
  have p: "0 < \<bar>x\<bar>" using assms by simp
  have "of_int \<lfloor>log 2 \<bar>x\<bar>\<rfloor> \<le> log 2 \<bar>x\<bar>" by simp
  then have "2 powr of_int \<lfloor>log 2 \<bar>x\<bar>\<rfloor> \<le> 2 powr log 2 \<bar>x\<bar>" by (simp only: powr_le_cancel_iff)
  then show "2 powr of_int \<lfloor>log 2 \<bar>x\<bar>\<rfloor> \<le> \<bar>x\<bar>" using p by simp
  have "log 2 \<bar>x\<bar> < of_int \<lfloor>log 2 \<bar>x\<bar>\<rfloor> + 1" by linarith
  then have "2 powr log 2 \<bar>x\<bar> < 2 powr (of_int \<lfloor>log 2 \<bar>x\<bar>\<rfloor> + 1)" by (simp only: powr_less_cancel_iff)
  then show "\<bar>x\<bar> < 2 powr (of_int \<lfloor>log 2 \<bar>x\<bar>\<rfloor> + 1)" using p by simp
qed

lemma floor_log2_eq:
  assumes "2 powr of_int k \<le> \<bar>x\<bar>" and "\<bar>x\<bar> < 2 powr (of_int k + 1)"
  shows "\<lfloor>log 2 \<bar>x\<bar>\<rfloor> = k"
proof -
  have p: "0 < \<bar>x\<bar>" using assms(1) powr_gt_zero [of 2 "of_int k"] by linarith
  have "of_int k \<le> log 2 \<bar>x\<bar>" using assms(1) p by (simp add: le_log_iff)
  moreover have "log 2 \<bar>x\<bar> < of_int k + 1" using assms(2) p by (simp add: log_less_iff)
  ultimately show ?thesis by linarith
qed

lemma two_powr_int_nonneg: "0 \<le> j \<Longrightarrow> (2::real) powr of_int j = of_int (2 ^ nat j)"
  by (simp add: powr_real_of_int)

lemma f64_exponent_ge: "- 1022 \<le> f64_exponent x"
  by (simp add: f64_exponent_def)

lemma abs_less_next_binade:
  assumes "x \<noteq> 0"
  shows "\<bar>x\<bar> < 2 powr (of_int (f64_exponent x) + 1)"
proof -
  have "\<bar>x\<bar> < 2 powr (of_int \<lfloor>log 2 \<bar>x\<bar>\<rfloor> + 1)" by (rule floor_log2_bounds(2) [OF assms])
  also have "\<dots> \<le> 2 powr (of_int (f64_exponent x) + 1)"
    by (simp add: f64_exponent_def)
  finally show ?thesis .
qed

lemma abs_ge_binade:
  assumes "x \<noteq> 0" and "- 1022 < f64_exponent x"
  shows "2 powr of_int (f64_exponent x) \<le> \<bar>x\<bar>"
proof -
  have "f64_exponent x = \<lfloor>log 2 \<bar>x\<bar>\<rfloor>" using assms(2) by (simp add: f64_exponent_def max_def split: if_splits)
  then show ?thesis using floor_log2_bounds(1) [OF assms(1)] by simp
qed

lemma grid_multiple:
  assumes "f64_round y = y" and "y \<noteq> 0"
  shows "y = of_int (round_half_even (y / f64_quantum y)) * f64_quantum y"
  using assms by (simp add: f64_round_def)

lemma quantum_ratio:
  assumes "f64_exponent x \<le> f64_exponent y"
  shows "f64_quantum y = of_int (2 ^ nat (f64_exponent y - f64_exponent x)) * f64_quantum x"
proof -
  have "f64_quantum y = 2 powr (of_int (f64_exponent y - f64_exponent x) + (of_int (f64_exponent x) - 52))"
    by (simp add: f64_quantum_def)
  also have "\<dots> = 2 powr of_int (f64_exponent y - f64_exponent x) * f64_quantum x"
    unfolding f64_quantum_def by (rule powr_add)
  also have "\<dots> = of_int (2 ^ nat (f64_exponent y - f64_exponent x)) * f64_quantum x"
    using assms by (subst two_powr_int_nonneg) simp_all
  finally show ?thesis .
qed

lemma binade_over_quantum: "2 powr of_int (f64_exponent x) = of_int (2 ^ 52) * f64_quantum x"
proof -
  have "2 powr of_int (f64_exponent x) = 2 powr (52 + (of_int (f64_exponent x) - 52))" by simp
  also have "\<dots> = 2 powr 52 * f64_quantum x" unfolding f64_quantum_def by (rule powr_add)
  also have "(2::real) powr 52 = of_int (2 ^ 52)"
    using two_powr_int_nonneg [of 52] by simp
  finally show ?thesis .
qed

lemma f64_round_ge_grid:
  assumes grid: "f64_round y = y" and le: "y \<le> x"
  shows "y \<le> f64_round x"
proof (cases "x = 0")
  case True
  then show ?thesis using le by (simp add: f64_round_def)
next
  case x0: False
  let ?u = "f64_quantum x"
  have u: "0 < ?u" by (rule f64_quantum_pos)
  have rx: "f64_round x = of_int (round_half_even (x / ?u)) * ?u" using x0 by (simp add: f64_round_def)
  show ?thesis
  proof (cases "y = 0")
    case True
    then have "of_int 0 \<le> x / ?u" using le u by simp
    then have "0 \<le> round_half_even (x / ?u)" by (rule round_half_even_ge)
    then show ?thesis using True rx u by simp
  next
    case y0: False
    show ?thesis
    proof (cases "f64_exponent x \<le> f64_exponent y")
      case True
      define n where "n = round_half_even (y / f64_quantum y)"
      define N where "N = n * 2 ^ nat (f64_exponent y - f64_exponent x)"
      have "y = of_int n * f64_quantum y" unfolding n_def by (rule grid_multiple [OF grid y0])
      then have yN: "y = of_int N * ?u" unfolding N_def by (simp add: quantum_ratio [OF True])
      then have "of_int N \<le> x / ?u" using le u by (simp add: pos_le_divide_eq)
      then have "N \<le> round_half_even (x / ?u)" by (rule round_half_even_ge)
      then have "of_int N * ?u \<le> of_int (round_half_even (x / ?u)) * ?u" using u by simp
      then show ?thesis using yN rx by simp
    next
      case False
      then have lt: "f64_exponent y < f64_exponent x" by simp
      then have big: "- 1022 < f64_exponent x" using f64_exponent_ge [of y] by linarith
      have xb: "2 powr of_int (f64_exponent x) \<le> \<bar>x\<bar>" by (rule abs_ge_binade [OF x0 big])
      have "\<bar>y\<bar> < 2 powr (of_int (f64_exponent y) + 1)" by (rule abs_less_next_binade [OF y0])
      also have "\<dots> \<le> 2 powr of_int (f64_exponent x)" using lt by simp
      finally have yb: "\<bar>y\<bar> < 2 powr of_int (f64_exponent x)" .
      have xpos: "0 < x" using xb yb le by linarith
      then have "of_int (2 ^ 52) * ?u \<le> x" using xb by (simp add: binade_over_quantum)
      then have "of_int (2 ^ 52) \<le> x / ?u" using u by (simp add: pos_le_divide_eq)
      then have "2 ^ 52 \<le> round_half_even (x / ?u)" by (rule round_half_even_ge)
      then have "of_int (2 ^ 52) * ?u \<le> of_int (round_half_even (x / ?u)) * ?u" using u by simp
      then have "2 powr of_int (f64_exponent x) \<le> f64_round x" using rx by (simp add: binade_over_quantum)
      then show ?thesis using yb by linarith
    qed
  qed
qed

lemma f64_round_le_grid:
  assumes grid: "f64_round y = y" and le: "x \<le> y"
  shows "f64_round x \<le> y"
proof (cases "x = 0")
  case True
  then show ?thesis using le by (simp add: f64_round_def)
next
  case x0: False
  let ?u = "f64_quantum x"
  have u: "0 < ?u" by (rule f64_quantum_pos)
  have rx: "f64_round x = of_int (round_half_even (x / ?u)) * ?u" using x0 by (simp add: f64_round_def)
  show ?thesis
  proof (cases "y = 0")
    case True
    then have "x / ?u \<le> of_int 0" using le u by (simp add: divide_le_0_iff)
    then have "round_half_even (x / ?u) \<le> 0" by (rule round_half_even_le)
    then have "of_int (round_half_even (x / ?u)) * ?u \<le> 0" using u by (simp add: mult_le_0_iff)
    then show ?thesis using True rx by simp
  next
    case y0: False
    show ?thesis
    proof (cases "f64_exponent x \<le> f64_exponent y")
      case True
      define n where "n = round_half_even (y / f64_quantum y)"
      define N where "N = n * 2 ^ nat (f64_exponent y - f64_exponent x)"
      have "y = of_int n * f64_quantum y" unfolding n_def by (rule grid_multiple [OF grid y0])
      then have yN: "y = of_int N * ?u" unfolding N_def by (simp add: quantum_ratio [OF True])
      then have "x / ?u \<le> of_int N" using le u by (simp add: pos_divide_le_eq)
      then have "round_half_even (x / ?u) \<le> N" by (rule round_half_even_le)
      then have "of_int (round_half_even (x / ?u)) * ?u \<le> of_int N * ?u" using u by simp
      then show ?thesis using yN rx by simp
    next
      case False
      then have lt: "f64_exponent y < f64_exponent x" by simp
      then have big: "- 1022 < f64_exponent x" using f64_exponent_ge [of y] by linarith
      have xb: "2 powr of_int (f64_exponent x) \<le> \<bar>x\<bar>" by (rule abs_ge_binade [OF x0 big])
      have "\<bar>y\<bar> < 2 powr (of_int (f64_exponent y) + 1)" by (rule abs_less_next_binade [OF y0])
      also have "\<dots> \<le> 2 powr of_int (f64_exponent x)" using lt by simp
      finally have yb: "\<bar>y\<bar> < 2 powr of_int (f64_exponent x)" .
      have xneg: "x < 0" using xb yb le by linarith
      then have "x \<le> - (of_int (2 ^ 52) * ?u)" using xb by (simp add: binade_over_quantum)
      then have "x / ?u \<le> of_int (- (2 ^ 52))" using u by (simp add: pos_divide_le_eq)
      then have "round_half_even (x / ?u) \<le> - (2 ^ 52)" by (rule round_half_even_le)
      then have "real_of_int (round_half_even (x / ?u)) \<le> of_int (- (2 ^ 52))"
        by (simp only: of_int_le_iff)
      then have "of_int (round_half_even (x / ?u)) * ?u \<le> of_int (- (2 ^ 52)) * ?u"
        using u by (intro mult_right_mono) simp_all
      then have "f64_round x \<le> - (2 powr of_int (f64_exponent x))" using rx by (simp add: binade_over_quantum)
      then show ?thesis using yb by linarith
    qed
  qed
qed

lemma f64_exponent_le:
  assumes "x \<noteq> 0" and "\<bar>x\<bar> < 2 powr (of_int j + 1)" and "- 1022 \<le> j"
  shows "f64_exponent x \<le> j"
proof -
  have p: "0 < \<bar>x\<bar>" using assms(1) by simp
  have "log 2 \<bar>x\<bar> < of_int j + 1" using assms(2) p by (simp add: log_less_iff)
  then have "\<lfloor>log 2 \<bar>x\<bar>\<rfloor> \<le> j" by linarith
  then show ?thesis using assms(3) by (simp add: f64_exponent_def)
qed

lemma f64_round_dyadic:
  assumes "\<bar>m\<bar> < 2 ^ 53" and "- 1074 \<le> k"
  shows "f64_round (of_int m * 2 powr of_int k) = of_int m * 2 powr of_int k"
proof (cases "m = 0")
  case True
  then show ?thesis by (simp add: f64_round_def)
next
  case False
  define y :: real where "y = of_int m * 2 powr of_int k"
  define u where "u = f64_quantum y"
  have y0: "y \<noteq> 0" using False by (simp add: y_def)
  have "\<bar>y\<bar> = of_int \<bar>m\<bar> * 2 powr of_int k" by (simp add: abs_mult y_def)
  also have "\<dots> < of_int (2 ^ 53) * 2 powr of_int k"
    using assms(1) by (intro mult_strict_right_mono) simp_all
  also have "\<dots> = 2 powr of_int 53 * 2 powr of_int k"
    using two_powr_int_nonneg [of 53] by simp
  also have "\<dots> = 2 powr (of_int 53 + of_int k)" by (rule powr_add [symmetric])
  also have "\<dots> = 2 powr (of_int (52 + k) + 1)"
    by (rule arg_cong [where f = "(powr) 2"]) simp
  finally have "\<bar>y\<bar> < 2 powr (of_int (52 + k) + 1)" .
  then have e: "f64_exponent y \<le> 52 + k" using assms(2) by (intro f64_exponent_le [OF y0]) simp_all
  define j where "j = k - (f64_exponent y - 52)"
  have j: "0 \<le> j" using e by (simp add: j_def)
  have "(2::real) powr of_int k = 2 powr (of_int j + (of_int (f64_exponent y) - 52))"
    by (rule arg_cong [where f = "(powr) 2"]) (simp add: j_def)
  also have "\<dots> = 2 powr of_int j * u" unfolding u_def f64_quantum_def by (rule powr_add)
  also have "\<dots> = of_int (2 ^ nat j) * u"
    using j by (subst two_powr_int_nonneg) simp_all
  finally have k: "2 powr of_int k = of_int (2 ^ nat j) * u" .
  have u: "u \<noteq> 0" using f64_quantum_pos [of y] by (simp add: u_def)
  have yu: "y = of_int (m * 2 ^ nat j) * u" unfolding y_def k by simp
  then have "y / u = of_int (m * 2 ^ nat j)" using u by simp
  then have "round_half_even (y / u) = m * 2 ^ nat j"
    by (simp only: round_half_even_of_int)
  then have "f64_round y = of_int (m * 2 ^ nat j) * u"
    using y0 by (simp add: f64_round_def u_def)
  then have "f64_round y = y" using yu by simp
  then show ?thesis by (simp add: y_def)
qed

lemma f64_round_int: "\<bar>n\<bar> < 2 ^ 53 \<Longrightarrow> f64_round (of_int n) = of_int n"
  using f64_round_dyadic [of n 0] by simp

lemma f64_round_pow2: "- 1074 \<le> k \<Longrightarrow> f64_round (2 powr of_int k) = 2 powr of_int k"
  using f64_round_dyadic [of 1 k] by simp

lemma f64_round_idem: "f64_round (f64_round x) = f64_round x"
proof (cases "x = 0")
  case True
  then show ?thesis by (simp add: f64_round_def)
next
  case x0: False
  define u where "u = f64_quantum x"
  define N where "N = round_half_even (x / u)"
  have u: "0 < u" unfolding u_def by (rule f64_quantum_pos)
  have rx: "f64_round x = of_int N * u" using x0 by (simp add: f64_round_def N_def u_def)
  have "\<bar>x\<bar> < 2 powr (of_int (f64_exponent x) + 1)" by (rule abs_less_next_binade [OF x0])
  also have "\<dots> = 2 powr of_int (f64_exponent x) * 2 powr 1" by (rule powr_add)
  also have "\<dots> = of_int (2 ^ 53) * u" unfolding u_def by (simp add: binade_over_quantum)
  finally have ax: "\<bar>x\<bar> < of_int (2 ^ 53) * u" .
  then have "x / u \<le> of_int (2 ^ 53)" "of_int (- (2 ^ 53)) \<le> x / u"
    using u by (simp_all add: pos_divide_le_eq pos_le_divide_eq abs_less_iff)
  then have Nb: "N \<le> 2 ^ 53" "- (2 ^ 53) \<le> N"
    unfolding N_def by (auto intro: round_half_even_le round_half_even_ge)
  have uk: "u = 2 powr of_int (f64_exponent x - 52)" by (simp add: f64_quantum_def u_def)
  have kge: "- 1074 \<le> f64_exponent x - 52" using f64_exponent_ge [of x] by linarith
  show ?thesis
  proof (cases "\<bar>N\<bar> < 2 ^ 53")
    case True
    show ?thesis unfolding rx uk by (rule f64_round_dyadic [OF True kge])
  next
    case False
    have two: "2 powr of_int (f64_exponent x - 51) = 2 * u"
    proof -
      have "(2::real) powr of_int (f64_exponent x - 51) = 2 powr (1 + of_int (f64_exponent x - 52))"
        by (rule arg_cong [where f = "(powr) 2"]) simp
      also have "\<dots> = 2 powr 1 * 2 powr of_int (f64_exponent x - 52)" by (rule powr_add)
      finally show ?thesis by (simp add: uk)
    qed
    from False have Ncases: "N = 2 ^ 53 \<or> N = - (2 ^ 53)" using Nb by linarith
    then have "of_int N * u = of_int (N div 2) * 2 powr of_int (f64_exponent x - 51)"
      unfolding two by auto
    moreover have "\<bar>N div 2\<bar> < 2 ^ 53" using Ncases by auto
    moreover have "- 1074 \<le> f64_exponent x - 51" using kge by linarith
    ultimately show ?thesis unfolding rx by (simp only: f64_round_dyadic)
  qed
qed

lemma f64_round_mono_lower: "f64_round a = a \<Longrightarrow> a \<le> x \<Longrightarrow> a \<le> f64_round x"
  by (rule f64_round_ge_grid)

lemma f64_round_underflow:
  assumes "\<bar>x\<bar> < 2 powr (- 1075)"
  shows "f64_round x = 0"
proof (cases "x = 0")
  case True
  then show ?thesis by (simp add: f64_round_def)
next
  case x0: False
  have "(2::real) powr (- 1075) < 2 powr (- 1021)" by simp
  then have "\<bar>x\<bar> < 2 powr (- 1021)" using assms by linarith
  then have "\<bar>x\<bar> < 2 powr (of_int (- 1022) + 1)" by simp
  then have "f64_exponent x \<le> - 1022" by (intro f64_exponent_le [OF x0]) simp_all
  then have e: "f64_exponent x = - 1022" using f64_exponent_ge [of x] by linarith
  have u: "f64_quantum x = 2 powr (- 1074)" by (simp add: f64_quantum_def e)
  have "(2::real) powr (- 1075) = 2 powr (- 1 + - 1074)" by simp
  also have "\<dots> = 2 powr (- 1) * 2 powr (- 1074)" by (rule powr_add)
  also have "(2::real) powr (- 1) = 1 / 2" by (simp add: powr_minus_divide)
  finally have "2 powr (- 1075) = (1 / 2) * (2::real) powr (- 1074)" .
  then have "\<bar>x\<bar> / 2 powr (- 1074) < 1 / 2"
    using assms by (simp add: pos_divide_less_eq)
  then have "\<bar>x / f64_quantum x - of_int 0\<bar> < 1 / 2" by (simp add: u abs_divide)
  then have "round_half_even (x / f64_quantum x) = 0" by (rule round_half_even_close)
  then show ?thesis using x0 by (simp add: f64_round_def)
qed

subsection \<open>Doubles and intervals of doubles\<close>

lemma f64_max_big: "2 ^ 1023 \<le> f64_max"
  by (simp add: f64_max_def)

lemma f64_fin:
  assumes "- f64_max \<le> f64_round x" and "f64_round x \<le> f64_max"
  shows "f64 x = Fin (f64_round x)"
  using assms by (simp add: f64_def)

lemma f64_int:
  assumes "\<bar>n\<bar> < 2 ^ 53"
  shows "f64 (of_int n) = Fin (of_int n)"
proof -
  have r: "f64_round (of_int n) = of_int n" by (rule f64_round_int [OF assms])
  have "\<bar>real_of_int n\<bar> \<le> 2 ^ 53" using assms by (simp flip: of_int_abs)
  also have "(2::real) ^ 53 \<le> f64_max" by (simp add: f64_max_def)
  finally have "\<bar>real_of_int n\<bar> \<le> f64_max" .
  then have "\<not> f64_max < real_of_int n" and "\<not> real_of_int n < - f64_max" by linarith+
  then show ?thesis by (simp add: f64_def r)
qed

lemma f64_small_numerals:
  "f64 0 = Fin 0" "f64 1 = Fin 1" "f64 2 = Fin 2" "f64 3 = Fin 3" "f64 4 = Fin 4"
  "f64 6 = Fin 6"
  using f64_int [of 0] f64_int [of 1] f64_int [of 2] f64_int [of 3] f64_int [of 4]
    f64_int [of 6]
  by simp_all

lemma f64_round_bounded:
  assumes "\<bar>x\<bar> \<le> 2 powr of_int k" and "- 1074 \<le> k"
  shows "\<bar>f64_round x\<bar> \<le> 2 powr of_int k"
proof -
  have g: "f64_round (2 powr of_int k) = 2 powr of_int k" by (rule f64_round_pow2 [OF assms(2)])
  have "f64_round (of_int (- 1) * 2 powr of_int k) = of_int (- 1) * 2 powr of_int k"
    by (rule f64_round_dyadic) (use assms(2) in simp_all)
  then have n: "f64_round (- (2 powr of_int k)) = - (2 powr of_int k)" by simp
  have "f64_round x \<le> 2 powr of_int k"
    by (rule f64_round_le_grid [OF g]) (use assms(1) in linarith)
  moreover have "- (2 powr of_int k) \<le> f64_round x"
    by (rule f64_round_ge_grid [OF n]) (use assms(1) in linarith)
  ultimately show ?thesis by linarith
qed

lemma two_powr_1023_le_max: "2 powr of_int 1023 \<le> f64_max"
proof -
  have "(2::real) powr of_int 1023 = 2 ^ 1023"
    using powr_realpow [of "2::real" 1023] by simp
  then show ?thesis using f64_max_big by simp
qed

lemma f64_bounded:
  assumes "\<bar>x\<bar> \<le> 2 powr of_int k" and "- 1074 \<le> k" and "k \<le> 1023"
  shows "f64 x = Fin (f64_round x)"
proof -
  have "\<bar>f64_round x\<bar> \<le> 2 powr of_int k" by (rule f64_round_bounded [OF assms(1,2)])
  also have "\<dots> \<le> 2 powr of_int 1023"
    by (rule powr_mono) (use assms(3) in simp_all)
  also have "\<dots> \<le> f64_max" by (rule two_powr_1023_le_max)
  finally have "\<bar>f64_round x\<bar> \<le> f64_max" .
  then have "\<not> f64_max < f64_round x" and "\<not> f64_round x < - f64_max" by linarith+
  then show ?thesis by (simp add: f64_def)
qed

section \<open>Properties of the sample pipeline\<close>

subsection \<open>Masks and the first minimum\<close>

lemma np_select_map:
  "np_select (map P (map fst df)) (map f df) = map f (filter (\<lambda>row. P (fst row)) df)"
  by (induction df) (simp_all add: np_select_def)

lemma np_count_map:
  "np_count (map P (map fst df)) = length (filter (\<lambda>row. P (fst row)) df)"
  by (induction df) (simp_all add: np_count_def)

lemma E_min_region_rows: "E_min_region df = map fst (band_rows 100 5000 df)"
  unfolding E_min_region_def band_mask_def energies_def band_rows_def by (rule np_select_map)

lemma loss_min_region_rows: "loss_min_region df = map snd (band_rows 100 5000 df)"
  unfolding loss_min_region_def band_mask_def energies_def energy_loss_def band_rows_def
  by (rule np_select_map)

lemma np_argmin_from_scan:
  assumes "best_idx < i"
  shows "(np_argmin_from best best_idx i xs = best_idx
           \<and> (\<forall>y\<in>set xs. best \<le> y))
       \<or> (i \<le> np_argmin_from best best_idx i xs
           \<and> np_argmin_from best best_idx i xs < i + length xs
           \<and> xs ! (np_argmin_from best best_idx i xs - i) < best
           \<and> (\<forall>y\<in>set xs. xs ! (np_argmin_from best best_idx i xs - i) \<le> y)
           \<and> (\<forall>j. j < np_argmin_from best best_idx i xs - i
                 \<longrightarrow> xs ! (np_argmin_from best best_idx i xs - i) < xs ! j))"
  using assms
proof (induction xs arbitrary: best best_idx i)
  case Nil
  then show ?case by simp
next
  case (Cons x xs)
  show ?case
  proof (cases "x < best")
    case True
    let ?r = "np_argmin_from x i (Suc i) xs"
    have r: "np_argmin_from best best_idx i (x # xs) = ?r" using True by simp
    have ih: "(?r = i \<and> (\<forall>y\<in>set xs. x \<le> y))
       \<or> (Suc i \<le> ?r \<and> ?r < Suc i + length xs \<and> xs ! (?r - Suc i) < x
           \<and> (\<forall>y\<in>set xs. xs ! (?r - Suc i) \<le> y)
           \<and> (\<forall>j. j < ?r - Suc i \<longrightarrow> xs ! (?r - Suc i) < xs ! j))"
      by (rule Cons.IH) simp
    then show ?thesis
    proof
      assume a: "?r = i \<and> (\<forall>y\<in>set xs. x \<le> y)"
      then show ?thesis using True r by auto
    next
      assume a: "Suc i \<le> ?r \<and> ?r < Suc i + length xs \<and> xs ! (?r - Suc i) < x
           \<and> (\<forall>y\<in>set xs. xs ! (?r - Suc i) \<le> y)
           \<and> (\<forall>j. j < ?r - Suc i \<longrightarrow> xs ! (?r - Suc i) < xs ! j)"
      then obtain k where k: "?r - i = Suc k" "?r - Suc i = k"
        by (metis Suc_diff_le diff_Suc_Suc)
      have "\<forall>j. j < Suc k \<longrightarrow> xs ! k < (x # xs) ! j"
      proof (intro allI impI)
        fix j assume "j < Suc k"
        then show "xs ! k < (x # xs) ! j"
          using a k by (cases j) auto
      qed
      then show ?thesis using a True r k by auto
    qed
  next
    case False
    let ?r = "np_argmin_from best best_idx (Suc i) xs"
    have r: "np_argmin_from best best_idx i (x # xs) = ?r" using False by simp
    have b: "best_idx < Suc i" using Cons.prems by simp
    have ih: "(?r = best_idx \<and> (\<forall>y\<in>set xs. best \<le> y))
       \<or> (Suc i \<le> ?r \<and> ?r < Suc i + length xs \<and> xs ! (?r - Suc i) < best
           \<and> (\<forall>y\<in>set xs. xs ! (?r - Suc i) \<le> y)
           \<and> (\<forall>j. j < ?r - Suc i \<longrightarrow> xs ! (?r - Suc i) < xs ! j))"
      by (rule Cons.IH [OF b])
    then show ?thesis
    proof
      assume a: "?r = best_idx \<and> (\<forall>y\<in>set xs. best \<le> y)"
      then show ?thesis using False r by auto
    next
      assume a: "Suc i \<le> ?r \<and> ?r < Suc i + length xs \<and> xs ! (?r - Suc i) < best
           \<and> (\<forall>y\<in>set xs. xs ! (?r - Suc i) \<le> y)
           \<and> (\<forall>j. j < ?r - Suc i \<longrightarrow> xs ! (?r - Suc i) < xs ! j)"
      then obtain k where k: "?r - i = Suc k" "?r - Suc i = k"
        by (metis Suc_diff_le diff_Suc_Suc)
      have "\<forall>j. j < Suc k \<longrightarrow> xs ! k < (x # xs) ! j"
      proof (intro allI impI)
        fix j assume "j < Suc k"
        then show "xs ! k < (x # xs) ! j"
          using a k False by (cases j) auto
      qed
      then show ?thesis using a False r k by auto
    qed
  qed
qed

lemma np_argmin_first_minimum:
  assumes "a \<noteq> []"
  shows "\<exists>i<length a. np_argmin a = Inr i \<and> (\<forall>j<length a. a ! i \<le> a ! j)
    \<and> (\<forall>j<i. a ! i < a ! j)"
proof -
  from assms obtain x xs where a: "a = x # xs" by (cases a) auto
  let ?r = "np_argmin_from x 0 1 xs"
  have r: "np_argmin a = Inr ?r" by (simp add: np_argmin_def a)
  have "(?r = 0 \<and> (\<forall>y\<in>set xs. x \<le> y))
       \<or> (1 \<le> ?r \<and> ?r < 1 + length xs \<and> xs ! (?r - 1) < x
           \<and> (\<forall>y\<in>set xs. xs ! (?r - 1) \<le> y)
           \<and> (\<forall>j. j < ?r - 1 \<longrightarrow> xs ! (?r - 1) < xs ! j))"
    using np_argmin_from_scan [of 0 1 x xs] by simp
  then show ?thesis
  proof
    assume h: "?r = 0 \<and> (\<forall>y\<in>set xs. x \<le> y)"
    have "\<forall>j<length a. a ! 0 \<le> a ! j"
    proof (intro allI impI)
      fix j assume "j < length a"
      then show "a ! 0 \<le> a ! j" using h a by (cases j) auto
    qed
    then show ?thesis using h r a by auto
  next
    assume h: "1 \<le> ?r \<and> ?r < 1 + length xs \<and> xs ! (?r - 1) < x
           \<and> (\<forall>y\<in>set xs. xs ! (?r - 1) \<le> y)
           \<and> (\<forall>j. j < ?r - 1 \<longrightarrow> xs ! (?r - 1) < xs ! j)"
    then obtain k where k: "?r = Suc k" by (cases ?r) auto
    have all: "\<forall>j<length a. a ! ?r \<le> a ! j"
    proof (intro allI impI)
      fix j assume "j < length a"
      then show "a ! ?r \<le> a ! j" using h a k by (cases j) auto
    qed
    have first: "\<forall>j<?r. a ! ?r < a ! j"
    proof (intro allI impI)
      fix j assume "j < ?r"
      then show "a ! ?r < a ! j" using h a k by (cases j) auto
    qed
    have "?r < length a" using h a by simp
    then show ?thesis using r all first by blast
  qed
qed

subsection \<open>The minimum-finder\<close>

lemma find_minimum_rows:
  assumes "np_argmin (map snd rows) = Inr i" and "i < length rows"
    and "E_min_region df = map fst rows" and "loss_min_region df = map snd rows"
  shows "find_minimum df = Inr (rows ! i)"
  using assms by (simp add: find_minimum_def py_get_def)

text \<open>
  Claim C3, as stated, fails on a non-empty sample list with no sample in the minimum
  region: the restriction is empty and \<^verbatim>\<open>np.argmin\<close> raises instead of returning.
\<close>

theorem find_minimum_counterexample:
  "[(1, 5), (2, 4), (3, 3), (10, 2)] \<noteq> ([] :: dataframe)
   \<and> find_minimum [(1, 5), (2, 4), (3, 3), (10, 2)] = Inl ValueError"
  by (simp add: find_minimum_def loss_min_region_def np_select_def band_mask_def energies_def
      energy_loss_def np_argmin_def)

text \<open>
  Claim C3, amended. For every sample list with at least one sample in the minimum region
  (energy in \<open>[100, 5000]\<close>, both bounds included), the minimum-finder returns the energy
  and the loss of the row of that region with the smallest loss, and of the first such row
  when several share it.
\<close>

theorem find_minimum_first_argmin:
  assumes "band_rows 100 5000 df \<noteq> []"
  shows "\<exists>i<length (band_rows 100 5000 df).
     find_minimum df = Inr (band_rows 100 5000 df ! i)
     \<and> (\<forall>j<length (band_rows 100 5000 df).
           snd (band_rows 100 5000 df ! i) \<le> snd (band_rows 100 5000 df ! j))
     \<and> (\<forall>j<i. snd (band_rows 100 5000 df ! i) < snd (band_rows 100 5000 df ! j))"
proof -
  let ?R = "band_rows 100 5000 df"
  have ne: "map snd ?R \<noteq> []" using assms by simp
  from np_argmin_first_minimum [OF ne]
  obtain i where i: "i < length ?R" "np_argmin (map snd ?R) = Inr i"
    and le: "\<forall>j<length (map snd ?R). map snd ?R ! i \<le> map snd ?R ! j"
    and first: "\<forall>j<i. map snd ?R ! i < map snd ?R ! j"
    by auto
  have "find_minimum df = Inr (?R ! i)"
    by (rule find_minimum_rows [OF i(2) i(1) E_min_region_rows loss_min_region_rows])
  moreover have "\<forall>j<length ?R. snd (?R ! i) \<le> snd (?R ! j)"
    using le i(1) by simp
  moreover have "\<forall>j<i. snd (?R ! i) < snd (?R ! j)"
    using first i(1) by simp
  ultimately show ?thesis using i(1) by blast
qed

theorem find_minimum_first_argmin_witness:
  "band_rows 100 5000 [(50, 9), (100, 3), (500, 2), (5000, 2), (6000, 1)] \<noteq> []
   \<and> find_minimum [(50, 9), (100, 3), (500, 2), (5000, 2), (6000, 1)] = Inr (500, 2)
   \<and> (\<exists>i<length (band_rows 100 5000 [(50, 9), (100, 3), (500, 2), (5000, 2), (6000, 1)]).
     find_minimum [(50, 9), (100, 3), (500, 2), (5000, 2), (6000, 1)]
       = Inr (band_rows 100 5000 [(50, 9), (100, 3), (500, 2), (5000, 2), (6000, 1)] ! i)
     \<and> (\<forall>j<length (band_rows 100 5000 [(50, 9), (100, 3), (500, 2), (5000, 2), (6000, 1)]).
           snd (band_rows 100 5000 [(50, 9), (100, 3), (500, 2), (5000, 2), (6000, 1)] ! i)
           \<le> snd (band_rows 100 5000 [(50, 9), (100, 3), (500, 2), (5000, 2), (6000, 1)] ! j))
     \<and> (\<forall>j<i. snd (band_rows 100 5000 [(50, 9), (100, 3), (500, 2), (5000, 2), (6000, 1)] ! i)
           < snd (band_rows 100 5000 [(50, 9), (100, 3), (500, 2), (5000, 2), (6000, 1)] ! j)))"
proof -
  have ne: "band_rows 100 5000 [(50, 9), (100, 3), (500, 2), (5000, 2), (6000, 1)] \<noteq> []"
    by (simp add: band_rows_def)
  have v: "find_minimum [(50, 9), (100, 3), (500, 2), (5000, 2), (6000, 1)] = Inr (500, 2)"
    by (simp add: find_minimum_def loss_min_region_def E_min_region_def np_select_def
        band_mask_def energies_def energy_loss_def np_argmin_def py_get_def)
  show ?thesis
    using ne v find_minimum_first_argmin [OF ne] by blast
qed

text \<open>
  Claim C10. If no sample has its energy in \<open>[100, 5000]\<close>, the minimum-finder gives no
  fallback: \<^verbatim>\<open>np.argmin\<close> raises on the empty restriction, and the run from the minimum
  plot onward ends with that error, whatever the library calls compute.
\<close>

theorem empty_minimum_region_aborts:
  assumes "\<forall>row\<in>set df. \<not> (100 \<le> fst row \<and> fst row \<le> 5000)"
  shows "find_minimum df = Inl ValueError
    \<and> run_from_minimum_plot ev polyfit1 np_mean np_std df = Inl ValueError"
proof -
  have "band_rows 100 5000 df = []"
    using assms by (simp add: band_rows_def filter_empty_conv)
  then have e: "E_min_region df = []" and l: "loss_min_region df = []"
    by (simp_all add: E_min_region_rows loss_min_region_rows)
  have f: "find_minimum df = Inl ValueError"
    by (simp add: find_minimum_def l np_argmin_def)
  have "plot_minimum_region ev df = Inr [DataMarkers [] []]"
    by (simp add: plot_minimum_region_def e l)
  then show ?thesis using f by (simp add: run_from_minimum_plot_def)
qed

theorem empty_minimum_region_aborts_witness:
  "find_minimum [(1, 5), (50, 2), (6000, 1), (7000, 1)] = Inl ValueError
   \<and> run_from_minimum_plot (\<lambda>c x. x) (\<lambda>xs ys. (Fin 0, Fin 0)) (\<lambda>a. Fin 0) (\<lambda>a. Fin 0)
        [(1, 5), (50, 2), (6000, 1), (7000, 1)] = Inl ValueError"
proof -
  have h: "\<forall>row\<in>set [(1, 5), (50, 2), (6000, 1), (7000, 1 :: real)].
      \<not> (100 \<le> fst row \<and> fst row \<le> (5000 :: real))"
    by simp
  show ?thesis
    using empty_minimum_region_aborts [OF h] by simp
qed

subsection \<open>The loop over the theoretical grid\<close>

lemma theory_point_raise: "f E = Inl e \<Longrightarrow> theory_point f E = None"
  by (simp add: theory_point_def)

lemma valid_points_set:
  "set (valid_points f grid) = {(E, v). E \<in> set grid \<and> theory_point f E = Some v}"
  by (induction grid)
    (auto simp: valid_points_def theory_loss_def List.map_filter_simps split: option.splits)

text \<open>
  Claim C7. For every grid and every evaluator, a grid point at which the evaluator raises
  is recorded as \<open>None\<close> at that point and is left out of the plotted theory curve; the
  loop still yields one entry per grid point, and every other point is evaluated on its
  own: a point where the evaluator returns a positive number keeps that number and is
  plotted.
\<close>

theorem exception_caught_per_point:
  "length (theory_loss f grid) = length grid
   \<and> (\<forall>i<length grid. theory_loss f grid ! i = theory_point f (grid ! i))
   \<and> (\<forall>i<length grid. (\<exists>e. f (grid ! i) = Inl e) \<longrightarrow>
         theory_loss f grid ! i = None \<and> grid ! i \<notin> set (E_valid f grid))
   \<and> (\<forall>i<length grid. \<forall>loss. f (grid ! i) = Inr loss \<and> \<not> np_isnan loss \<and> np_gt loss (Fin 0) \<longrightarrow>
         theory_loss f grid ! i = Some loss \<and> (grid ! i, loss) \<in> set (valid_points f grid))"
proof (intro conjI allI impI)
  show "length (theory_loss f grid) = length grid" by (simp add: theory_loss_def)
next
  fix i assume "i < length grid"
  then show "theory_loss f grid ! i = theory_point f (grid ! i)" by (simp add: theory_loss_def)
next
  fix i assume i: "i < length grid" and "\<exists>e. f (grid ! i) = Inl e"
  then have n: "theory_point f (grid ! i) = None" by (auto simp: theory_point_raise)
  then show "theory_loss f grid ! i = None" using i by (simp add: theory_loss_def)
  show "grid ! i \<notin> set (E_valid f grid)"
    using n by (auto simp: E_valid_def valid_points_set)
next
  fix i loss
  assume i: "i < length grid"
    and "f (grid ! i) = Inr loss \<and> \<not> np_isnan loss \<and> np_gt loss (Fin 0)"
  then have s: "theory_point f (grid ! i) = Some loss" by (simp add: theory_point_def)
  then show "theory_loss f grid ! i = Some loss" using i by (simp add: theory_loss_def)
  show "(grid ! i, loss) \<in> set (valid_points f grid)"
    using s i by (simp add: valid_points_set)
qed

theorem exception_caught_per_point_witness:
  "length (theory_loss (\<lambda>E. if E = Fin 2 then Inl OtherError else bethe_bloch_muon E 322)
      [Fin 2, Fin (- 300), Fin 3]) = length [Fin 2, Fin (- 300), Fin 3]
   \<and> theory_loss (\<lambda>E. if E = Fin 2 then Inl OtherError else bethe_bloch_muon E 322)
      [Fin 2, Fin (- 300), Fin 3] ! 0 = None
   \<and> Fin 2 \<notin> set (E_valid (\<lambda>E. if E = Fin 2 then Inl OtherError else bethe_bloch_muon E 322)
      [Fin 2, Fin (- 300), Fin 3])"
proof -
  let ?f = "\<lambda>E. if E = Fin 2 then Inl OtherError else bethe_bloch_muon E 322"
  let ?g = "[Fin 2, Fin (- 300), Fin 3]"
  have a: "\<forall>i<length ?g. (\<exists>e. ?f (?g ! i) = Inl e) \<longrightarrow>
         theory_loss ?f ?g ! i = None \<and> ?g ! i \<notin> set (E_valid ?f ?g)"
    and l: "length (theory_loss ?f ?g) = length ?g"
    using exception_caught_per_point [of ?f ?g] by blast+
  have "0 < length ?g" by simp
  with a have "(\<exists>e. ?f (?g ! 0) = Inl e) \<longrightarrow>
         theory_loss ?f ?g ! 0 = None \<and> ?g ! 0 \<notin> set (E_valid ?f ?g)"
    by blast
  then have "theory_loss ?f ?g ! 0 = None \<and> Fin 2 \<notin> set (E_valid ?f ?g)" by simp
  then show ?thesis using l by simp
qed

subsection \<open>Minima, maxima and filtered loops\<close>

lemma foldl_min_Min: "foldl min x xs = Min (set (x # xs))" for x :: real
proof (induction xs arbitrary: x)
  case Nil
  then show ?case by simp
next
  case (Cons y ys)
  have "foldl min x (y # ys) = Min (set (min x y # ys))" by (simp add: Cons.IH)
  also have "\<dots> = Min (set (x # y # ys))"
    by (cases "ys = []") (simp_all add: Min_insert min.assoc)
  finally show ?case .
qed

lemma foldl_max_Max: "foldl max x xs = Max (set (x # xs))" for x :: real
proof (induction xs arbitrary: x)
  case Nil
  then show ?case by simp
next
  case (Cons y ys)
  have "foldl max x (y # ys) = Max (set (max x y # ys))" by (simp add: Cons.IH)
  also have "\<dots> = Max (set (x # y # ys))"
    by (cases "ys = []") (simp_all add: Max_insert max.assoc)
  finally show ?case .
qed

lemma np_min_Min: "a \<noteq> [] \<Longrightarrow> np_min a = Min (set a)"
  by (cases a) (simp_all add: np_min_def foldl_min_Min del: set_simps)

lemma np_max_Max: "a \<noteq> [] \<Longrightarrow> np_max a = Max (set a)"
  by (cases a) (simp_all add: np_max_def foldl_max_Max del: set_simps)

lemma foldl_np_minimum_Fin: "foldl np_minimum (Fin x) (map Fin xs) = Fin (foldl min x xs)"
  by (induction xs arbitrary: x) (simp_all add: min_def)

lemma foldl_np_maximum_Fin: "foldl np_maximum (Fin x) (map Fin xs) = Fin (foldl max x xs)"
  by (induction xs arbitrary: x) (auto simp: max_def)

lemma np_amin_Fin: "a \<noteq> [] \<Longrightarrow> np_amin (map Fin a) = Inr (Fin (Min (set a)))"
  by (cases a) (simp_all add: np_amin_def foldl_np_minimum_Fin foldl_min_Min del: set_simps)

lemma np_amax_Fin: "a \<noteq> [] \<Longrightarrow> np_amax (map Fin a) = Inr (Fin (Max (set a)))"
  by (cases a) (simp_all add: np_amax_def foldl_np_maximum_Fin foldl_max_Max del: set_simps)



lemma length_np_linspace: "length (np_linspace start stop num) = num"
  by (simp add: np_linspace_def)

lemma map_filter_cond:
  assumes "\<And>x. x \<in> set xs \<Longrightarrow> f x = (if P x then Some (g x) else None)"
  shows "List.map_filter f xs = map g (filter P xs)"
  using assms by (induction xs) (simp_all add: List.map_filter_simps)

lemma band_select_fst:
  "np_select (band_mask E_min E_max (map fst rows)) (map fst rows)
     = map fst (band_rows E_min E_max rows)"
  unfolding band_mask_def band_rows_def by (rule np_select_map)

lemma band_select_snd:
  "np_select (band_mask E_min E_max (map fst rows)) (map snd rows)
     = map snd (band_rows E_min E_max rows)"
  unfolding band_mask_def band_rows_def by (rule np_select_map)

lemma band_count:
  "np_count (band_mask E_min E_max (map fst rows)) = length (band_rows E_min E_max rows)"
  unfolding band_mask_def band_rows_def by (rule np_count_map)

lemma band_rows_above:
  assumes "c \<le> E_min"
  shows "band_rows E_min E_max (filter (\<lambda>row. c \<le> fst row) df) = band_rows E_min E_max df"
  unfolding band_rows_def filter_filter using assms by (intro filter_cong) auto

lemma length_band_rows_le: "length (band_rows E_min E_max df) \<le> length df"
  by (simp add: band_rows_def)

lemma E_rel_rows: "E_rel df = map fst (filter (\<lambda>row. 1000 \<le> fst row) df)"
  unfolding E_rel_def energies_def by (rule np_select_map)

lemma loss_rel_rows: "loss_rel df = map snd (filter (\<lambda>row. 1000 \<le> fst row) df)"
  unfolding loss_rel_def energies_def energy_loss_def by (rule np_select_map)

lemma E_zoom_rows: "E_zoom df = map fst (band_rows 200 2000 df)"
  unfolding E_zoom_def energies_def by (rule band_select_fst)

lemma loss_zoom_rows: "loss_zoom df = map snd (band_rows 200 2000 df)"
  unfolding loss_zoom_def energies_def energy_loss_def by (rule band_select_snd)

subsection \<open>The smooth curves\<close>

lemma min_smooth_returns:
  assumes "E_min_region df \<noteq> []"
  shows "min_smooth ev df =
    Inr (np_linspace (Fin (Min (set (E_min_region df)))) (Fin (Max (set (E_min_region df)))) 200,
         map (ev (interp_min df))
           (np_linspace (Fin (Min (set (E_min_region df)))) (Fin (Max (set (E_min_region df)))) 200))"
  by (simp add: min_smooth_def Let_def np_amin_Fin [OF assms] np_amax_Fin [OF assms])

lemma zoom_smooth_returns:
  assumes "E_zoom df \<noteq> []"
  shows "zoom_smooth ev df =
    Inr (np_linspace (Fin (Min (set (E_zoom df)))) (Fin (Max (set (E_zoom df)))) 500,
         map (ev (interp_zoom df))
           (np_linspace (Fin (Min (set (E_zoom df)))) (Fin (Max (set (E_zoom df)))) 500))"
  by (simp add: zoom_smooth_def Let_def np_amin_Fin [OF assms] np_amax_Fin [OF assms])

lemma rel_smooth_returns:
  assumes "E_rel df \<noteq> []"
  shows "rel_smooth ev df =
    Inr (map np_exp10
           (np_linspace (np_log10 (Fin (Min (set (E_rel df)))))
              (np_log10 (Fin (Max (set (E_rel df))))) 300),
         map (\<lambda>x. np_exp10 (ev (interp_rel df) x))
           (np_linspace (np_log10 (Fin (Min (set (E_rel df)))))
              (np_log10 (Fin (Max (set (E_rel df))))) 300))"
  by (simp add: rel_smooth_def Let_def np_amin_Fin [OF assms] np_amax_Fin [OF assms])


lemma plot_relativistic_returns: "\<exists>ax3. plot_relativistic ev df = Inr ax3"
proof (cases "3 < length (E_rel df)")
  case True
  then have "E_rel df \<noteq> []" by auto
  then show ?thesis using True by (simp add: plot_relativistic_def rel_smooth_returns)
next
  case False
  then show ?thesis by (simp add: plot_relativistic_def)
qed

lemma plot_zoom_returns: "\<exists>ax_min. plot_zoom ev df = Inr ax_min"
proof (cases "3 < length (E_zoom df)")
  case True
  then have "E_zoom df \<noteq> []" by auto
  then show ?thesis using True by (simp add: plot_zoom_def zoom_smooth_returns)
next
  case False
  then show ?thesis by (simp add: plot_zoom_def)
qed

lemma plot_minimum_region_returns: "\<exists>ax2. plot_minimum_region ev df = Inr ax2"
proof (cases "3 < length (E_min_region df)")
  case True
  then have "E_min_region df \<noteq> []" by auto
  then show ?thesis using True by (simp add: plot_minimum_region_def min_smooth_returns)
next
  case False
  then show ?thesis by (simp add: plot_minimum_region_def)
qed

text \<open>
  Claim C8. For each of the three sub-ranges offered for a smooth curve (the minimum
  region, the relativistic region, the zoom region): with at least 4 samples the block
  draws the interpolated curve and then the raw markers; with fewer than 4 samples it
  draws the raw markers only. The interpolated curve is the interpolant of the
  sub-range, evaluated on the grid of 200, 300 and 500 points that \<^verbatim>\<open>np.linspace\<close> lays
  between the smallest and the largest energy of the sub-range (between their decimal
  logarithms, for the relativistic region).
\<close>

theorem smooth_curve_needs_four_points:
  "(4 \<le> length (E_min_region df) \<longrightarrow>
      plot_minimum_region ev df =
        Inr [SmoothLine
               (np_linspace (Fin (Min (set (E_min_region df))))
                  (Fin (Max (set (E_min_region df)))) 200)
               (map (ev \<lparr>fit_x = map Fin (E_min_region df), fit_y = map Fin (loss_min_region df),
                         kind = Cubic, extrapolate = False\<rparr>)
                  (np_linspace (Fin (Min (set (E_min_region df))))
                     (Fin (Max (set (E_min_region df)))) 200)),
             DataMarkers (E_min_region df) (loss_min_region df)])
   \<and> (length (E_min_region df) < 4 \<longrightarrow>
      plot_minimum_region ev df = Inr [DataMarkers (E_min_region df) (loss_min_region df)])
   \<and> (4 \<le> length (E_rel df) \<longrightarrow>
      plot_relativistic ev df =
        Inr [SmoothLine
               (map np_exp10
                  (np_linspace (np_log10 (Fin (Min (set (E_rel df)))))
                     (np_log10 (Fin (Max (set (E_rel df))))) 300))
               (map (\<lambda>x. np_exp10
                       (ev \<lparr>fit_x = map (\<lambda>e. np_log10 (Fin e)) (E_rel df),
                            fit_y = map (\<lambda>l. np_log10 (Fin l)) (loss_rel df),
                            kind = Cubic, extrapolate = False\<rparr> x))
                  (np_linspace (np_log10 (Fin (Min (set (E_rel df)))))
                     (np_log10 (Fin (Max (set (E_rel df))))) 300)),
             DataMarkers (E_rel df) (loss_rel df)])
   \<and> (length (E_rel df) < 4 \<longrightarrow>
      plot_relativistic ev df = Inr [DataMarkers (E_rel df) (loss_rel df)])
   \<and> (4 \<le> length (E_zoom df) \<longrightarrow>
      plot_zoom ev df =
        Inr [SmoothLine
               (np_linspace (Fin (Min (set (E_zoom df)))) (Fin (Max (set (E_zoom df)))) 500)
               (map (ev \<lparr>fit_x = map Fin (E_zoom df), fit_y = map Fin (loss_zoom df),
                         kind = Cubic, extrapolate = False\<rparr>)
                  (np_linspace (Fin (Min (set (E_zoom df)))) (Fin (Max (set (E_zoom df)))) 500)),
             DataMarkers (E_zoom df) (loss_zoom df)])
   \<and> (length (E_zoom df) < 4 \<longrightarrow>
      plot_zoom ev df = Inr [DataMarkers (E_zoom df) (loss_zoom df)])"
proof (intro conjI impI)
  assume "4 \<le> length (E_min_region df)"
  then have g: "3 < length (E_min_region df)" and ne: "E_min_region df \<noteq> []" by auto
  show "plot_minimum_region ev df =
        Inr [SmoothLine
               (np_linspace (Fin (Min (set (E_min_region df))))
                  (Fin (Max (set (E_min_region df)))) 200)
               (map (ev \<lparr>fit_x = map Fin (E_min_region df), fit_y = map Fin (loss_min_region df),
                         kind = Cubic, extrapolate = False\<rparr>)
                  (np_linspace (Fin (Min (set (E_min_region df))))
                     (Fin (Max (set (E_min_region df)))) 200)),
             DataMarkers (E_min_region df) (loss_min_region df)]"
    using g by (simp add: plot_minimum_region_def min_smooth_returns [OF ne] interp_min_def)
next
  assume "length (E_min_region df) < 4"
  then show "plot_minimum_region ev df = Inr [DataMarkers (E_min_region df) (loss_min_region df)]"
    by (simp add: plot_minimum_region_def)
next
  assume "4 \<le> length (E_rel df)"
  then have g: "3 < length (E_rel df)" and ne: "E_rel df \<noteq> []" by auto
  show "plot_relativistic ev df =
        Inr [SmoothLine
               (map np_exp10
                  (np_linspace (np_log10 (Fin (Min (set (E_rel df)))))
                     (np_log10 (Fin (Max (set (E_rel df))))) 300))
               (map (\<lambda>x. np_exp10
                       (ev \<lparr>fit_x = map (\<lambda>e. np_log10 (Fin e)) (E_rel df),
                            fit_y = map (\<lambda>l. np_log10 (Fin l)) (loss_rel df),
                            kind = Cubic, extrapolate = False\<rparr> x))
                  (np_linspace (np_log10 (Fin (Min (set (E_rel df)))))
                     (np_log10 (Fin (Max (set (E_rel df))))) 300)),
             DataMarkers (E_rel df) (loss_rel df)]"
    using g by (simp add: plot_relativistic_def rel_smooth_returns [OF ne] interp_rel_def)
next
  assume "length (E_rel df) < 4"
  then show "plot_relativistic ev df = Inr [DataMarkers (E_rel df) (loss_rel df)]"
    by (simp add: plot_relativistic_def)
next
  assume "4 \<le> length (E_zoom df)"
  then have g: "3 < length (E_zoom df)" and ne: "E_zoom df \<noteq> []" by auto
  show "plot_zoom ev df =
        Inr [SmoothLine
               (np_linspace (Fin (Min (set (E_zoom df)))) (Fin (Max (set (E_zoom df)))) 500)
               (map (ev \<lparr>fit_x = map Fin (E_zoom df), fit_y = map Fin (loss_zoom df),
                         kind = Cubic, extrapolate = False\<rparr>)
                  (np_linspace (Fin (Min (set (E_zoom df)))) (Fin (Max (set (E_zoom df)))) 500)),
             DataMarkers (E_zoom df) (loss_zoom df)]"
    using g by (simp add: plot_zoom_def zoom_smooth_returns [OF ne] interp_zoom_def)
next
  assume "length (E_zoom df) < 4"
  then show "plot_zoom ev df = Inr [DataMarkers (E_zoom df) (loss_zoom df)]"
    by (simp add: plot_zoom_def)
qed

theorem smooth_curve_needs_four_points_witness:
  "plot_minimum_region (\<lambda>c x. x) [(100, 3), (200, 2), (300, 2), (400, 3), (2000, 4), (3000, 5)] =
     Inr [SmoothLine (np_linspace (Fin 100) (Fin 3000) 200) (np_linspace (Fin 100) (Fin 3000) 200),
          DataMarkers [100, 200, 300, 400, 2000, 3000] [3, 2, 2, 3, 4, 5]]
   \<and> plot_relativistic (\<lambda>c x. x) [(100, 3), (200, 2), (300, 2), (400, 3), (2000, 4), (3000, 5)] =
     Inr [DataMarkers [2000, 3000] [4, 5]]
   \<and> plot_zoom (\<lambda>c x. x) [(100, 3), (200, 2), (300, 2), (400, 3), (2000, 4), (3000, 5)] =
     Inr [SmoothLine (np_linspace (Fin 200) (Fin 2000) 500) (np_linspace (Fin 200) (Fin 2000) 500),
          DataMarkers [200, 300, 400, 2000] [2, 2, 3, 4]]
   \<and> plot_minimum_region (\<lambda>c x. x) [(150, 3), (1000, 2), (6000, 2), (7000, 3), (8000, 4)] =
     Inr [DataMarkers [150, 1000] [3, 2]]
   \<and> plot_relativistic (\<lambda>c x. x) [(150, 3), (1000, 2), (6000, 2), (7000, 3), (8000, 4)] =
     Inr [SmoothLine
            (map np_exp10 (np_linspace (np_log10 (Fin 1000)) (np_log10 (Fin 8000)) 300))
            (map np_exp10 (np_linspace (np_log10 (Fin 1000)) (np_log10 (Fin 8000)) 300)),
          DataMarkers [1000, 6000, 7000, 8000] [2, 2, 3, 4]]
   \<and> plot_zoom (\<lambda>c x. x) [(150, 3), (1000, 2), (6000, 2), (7000, 3), (8000, 4)] =
     Inr [DataMarkers [1000] [2]]"
proof -
  let ?d1 = "[(100, 3), (200, 2), (300, 2), (400, 3), (2000, 4), (3000, 5)] :: dataframe"
  let ?d2 = "[(150, 3), (1000, 2), (6000, 2), (7000, 3), (8000, 4)] :: dataframe"
  have m1: "E_min_region ?d1 = [100, 200, 300, 400, 2000, 3000]"
    "loss_min_region ?d1 = [3, 2, 2, 3, 4, 5]"
    by (simp_all add: E_min_region_rows loss_min_region_rows band_rows_def)
  have r1: "E_rel ?d1 = [2000, 3000]" "loss_rel ?d1 = [4, 5]"
    by (simp_all add: E_rel_rows loss_rel_rows)
  have z1: "E_zoom ?d1 = [200, 300, 400, 2000]" "loss_zoom ?d1 = [2, 2, 3, 4]"
    by (simp_all add: E_zoom_rows loss_zoom_rows band_rows_def)
  have m2: "E_min_region ?d2 = [150, 1000]" "loss_min_region ?d2 = [3, 2]"
    by (simp_all add: E_min_region_rows loss_min_region_rows band_rows_def)
  have r2: "E_rel ?d2 = [1000, 6000, 7000, 8000]" "loss_rel ?d2 = [2, 2, 3, 4]"
    by (simp_all add: E_rel_rows loss_rel_rows)
  have z2: "E_zoom ?d2 = [1000]" "loss_zoom ?d2 = [2]"
    by (simp_all add: E_zoom_rows loss_zoom_rows band_rows_def)
  show ?thesis
    using smooth_curve_needs_four_points [of ?d1 "\<lambda>c x. x"]
      smooth_curve_needs_four_points [of ?d2 "\<lambda>c x. x"]
    by (simp add: m1 r1 z1 m2 r2 z2)
qed

subsection \<open>The space of each interpolation\<close>





subsection \<open>The regional fits\<close>

lemma fit_sub_region_rows:
  "fit_sub_region polyfit1 (map fst R) (map snd R) (E_min, E_max, label) =
     (if 2 < length (band_rows E_min E_max R) then
        Some (let rows = band_rows E_min E_max R;
                  fit = polyfit1 (map (\<lambda>row. np_log10 (Fin (fst row))) rows)
                                 (map (\<lambda>row. np_log10 (Fin (snd row))) rows);
                  E_fit = np_logspace (np_log10 (Fin E_min)) (np_log10 (Fin E_max)) 50
              in \<lparr>tl_label = label, tl_slope = fst fit, tl_intercept = snd fit,
                   tl_E_fit = E_fit,
                   tl_loss_fit =
                     map (\<lambda>x. np_exp10 (np_add (np_mul (fst fit) (np_log10 x)) (snd fit)))
                         E_fit\<rparr>)
      else None)"
  by (simp add: fit_sub_region_def Let_def band_count band_select_fst band_select_snd o_def)

lemma fit_range_rows:
  "fit_range polyfit1 (map fst U) (map snd U) min_loss (E_min, E_max, range_name) =
     (if 2 < length (band_rows E_min E_max U) then
        Some (let rows = band_rows E_min E_max U;
                  fit = polyfit1 (map (\<lambda>row. np_log10 (Fin (fst row))) rows)
                                 (map (\<lambda>row. np_log10 (Fin (snd row))) rows)
              in \<lparr>rt_name = range_name, rt_slope = fst fit,
                   rt_increase_in_range = np_div (Fin (snd (last rows))) (Fin (snd (hd rows))),
                   rt_increase_from_min = np_div (Fin (snd (last rows))) (Fin min_loss)\<rparr>)
      else None)"
proof (cases "2 < length (band_rows E_min E_max U)")
  case True
  then have "band_rows E_min E_max U \<noteq> []" by auto
  then show ?thesis
    using True
    by (simp add: fit_range_def Let_def band_count band_select_fst band_select_snd o_def
        hd_map last_map)
next
  case False
  then show ?thesis by (simp add: fit_range_def Let_def band_count)
qed

lemma relativistic_trends_rows:
  "relativistic_trends polyfit1 df =
     (if 5 < length (filter (\<lambda>row. 1000 \<le> fst row) df) then
        map (\<lambda>(E_min, E_max, label).
               (let rows = band_rows E_min E_max df;
                    fit = polyfit1 (map (\<lambda>row. np_log10 (Fin (fst row))) rows)
                                   (map (\<lambda>row. np_log10 (Fin (snd row))) rows);
                    E_fit = np_logspace (np_log10 (Fin E_min)) (np_log10 (Fin E_max)) 50
                in \<lparr>tl_label = label, tl_slope = fst fit, tl_intercept = snd fit,
                     tl_E_fit = E_fit,
                     tl_loss_fit =
                       map (\<lambda>x. np_exp10 (np_add (np_mul (fst fit) (np_log10 x)) (snd fit)))
                           E_fit\<rparr>))
            (filter (\<lambda>(E_min, E_max, label). 2 < length (band_rows E_min E_max df)) sub_regions)
      else [])"
proof (cases "5 < length (filter (\<lambda>row. 1000 \<le> fst row) df)")
  case True
  let ?R = "filter (\<lambda>row. 1000 \<le> fst row) df"
  have b: "band_rows E_min E_max ?R = band_rows E_min E_max df"
    if "(E_min, E_max, label) \<in> set sub_regions" for E_min E_max label
    by (rule band_rows_above) (use that in \<open>auto simp: sub_regions_def\<close>)
  have "List.map_filter (fit_sub_region polyfit1 (map fst ?R) (map snd ?R)) sub_regions =
      map (\<lambda>(E_min, E_max, label).
               (let rows = band_rows E_min E_max df;
                    fit = polyfit1 (map (\<lambda>row. np_log10 (Fin (fst row))) rows)
                                   (map (\<lambda>row. np_log10 (Fin (snd row))) rows);
                    E_fit = np_logspace (np_log10 (Fin E_min)) (np_log10 (Fin E_max)) 50
                in \<lparr>tl_label = label, tl_slope = fst fit, tl_intercept = snd fit,
                     tl_E_fit = E_fit,
                     tl_loss_fit =
                       map (\<lambda>x. np_exp10 (np_add (np_mul (fst fit) (np_log10 x)) (snd fit)))
                           E_fit\<rparr>))
            (filter (\<lambda>(E_min, E_max, label). 2 < length (band_rows E_min E_max df)) sub_regions)"
  proof (rule map_filter_cond)
    fix band assume m: "band \<in> set sub_regions"
    obtain E_min E_max label where band: "band = (E_min, E_max, label)" by (cases band) auto
    show "fit_sub_region polyfit1 (map fst ?R) (map snd ?R) band =
        (if (case band of (E_min, E_max, label) \<Rightarrow> 2 < length (band_rows E_min E_max df))
         then Some (case band of (E_min, E_max, label) \<Rightarrow>
               (let rows = band_rows E_min E_max df;
                    fit = polyfit1 (map (\<lambda>row. np_log10 (Fin (fst row))) rows)
                                   (map (\<lambda>row. np_log10 (Fin (snd row))) rows);
                    E_fit = np_logspace (np_log10 (Fin E_min)) (np_log10 (Fin E_max)) 50
                in \<lparr>tl_label = label, tl_slope = fst fit, tl_intercept = snd fit,
                     tl_E_fit = E_fit,
                     tl_loss_fit =
                       map (\<lambda>x. np_exp10 (np_add (np_mul (fst fit) (np_log10 x)) (snd fit)))
                           E_fit\<rparr>))
         else None)"
      using b [of E_min E_max label] m
      by (simp add: band fit_sub_region_rows)
  qed
  then show ?thesis
    using True by (simp add: relativistic_trends_def E_rel_rows loss_rel_rows)
next
  case False
  then show ?thesis by (simp add: relativistic_trends_def E_rel_rows)
qed

lemma range_trends_rows:
  "range_trends polyfit1 df min_loss =
     map (\<lambda>(E_min, E_max, range_name).
            (let rows = band_rows E_min E_max df;
                 fit = polyfit1 (map (\<lambda>row. np_log10 (Fin (fst row))) rows)
                                (map (\<lambda>row. np_log10 (Fin (snd row))) rows)
             in \<lparr>rt_name = range_name, rt_slope = fst fit,
                  rt_increase_in_range = np_div (Fin (snd (last rows))) (Fin (snd (hd rows))),
                  rt_increase_from_min = np_div (Fin (snd (last rows))) (Fin min_loss)\<rparr>))
         (filter (\<lambda>(E_min, E_max, range_name). 2 < length (band_rows E_min E_max df)) ranges)"
proof -
  let ?U = "filter (\<lambda>row. 1000000 \<le> fst row) df"
  let ?g = "\<lambda>(E_min, E_max, range_name).
            (let rows = band_rows E_min E_max df;
                 fit = polyfit1 (map (\<lambda>row. np_log10 (Fin (fst row))) rows)
                                (map (\<lambda>row. np_log10 (Fin (snd row))) rows)
             in \<lparr>rt_name = range_name, rt_slope = fst fit,
                  rt_increase_in_range = np_div (Fin (snd (last rows))) (Fin (snd (hd rows))),
                  rt_increase_from_min = np_div (Fin (snd (last rows))) (Fin min_loss)\<rparr>)"
  let ?P = "\<lambda>(E_min, E_max, range_name). 2 < length (band_rows E_min E_max df)"
  have sel: "np_select (map (\<lambda>e. 1000000 \<le> e) (energies df)) (energies df) = map fst ?U"
    "np_select (map (\<lambda>e. 1000000 \<le> e) (energies df)) (energy_loss df) = map snd ?U"
    "np_count (map (\<lambda>e. 1000000 \<le> e) (energies df)) = length ?U"
    unfolding energies_def energy_loss_def
    by (rule np_select_map, rule np_select_map, rule np_count_map)
  have b: "band_rows E_min E_max ?U = band_rows E_min E_max df"
    if "(E_min, E_max, range_name) \<in> set ranges" for E_min E_max range_name
    by (rule band_rows_above) (use that in \<open>auto simp: ranges_def\<close>)
  have mf: "List.map_filter (fit_range polyfit1 (map fst ?U) (map snd ?U) min_loss) ranges =
      map ?g (filter ?P ranges)"
  proof (rule map_filter_cond)
    fix band assume m: "band \<in> set ranges"
    obtain E_min E_max range_name where band: "band = (E_min, E_max, range_name)"
      by (cases band) auto
    show "fit_range polyfit1 (map fst ?U) (map snd ?U) min_loss band =
        (if ?P band then Some (?g band) else None)"
      using b [of E_min E_max range_name] m
      by (simp add: band fit_range_rows)
  qed
  show ?thesis
  proof (cases "2 < length ?U")
    case True
    then show ?thesis by (simp add: range_trends_def Let_def sel mf)
  next
    case False
    have "filter ?P ranges = []"
    proof (rule filter_False, clarify)
      fix E_min E_max range_name
      assume m: "(E_min, E_max, range_name) \<in> set ranges"
        and p: "2 < length (band_rows E_min E_max df)"
      have "length (band_rows E_min E_max ?U) \<le> length ?U" by (rule length_band_rows_le)
      then show False using b [OF m] p False by simp
    qed
    then show ?thesis using False by (simp add: range_trends_def Let_def sel)
  qed
qed

text \<open>
  Claim C5, as stated, fails for the sub-bands of the relativistic plot (lines 176 to
  197). With the samples below the sub-band from 1 to 10 GeV holds 3 samples, more than 2,
  yet no trend is fitted, whatever \<^verbatim>\<open>np.polyfit\<close> would return: the loop over the
  sub-bands is not entered, because the relativistic region holds 4 samples, not more
  than 5.
\<close>

theorem relativistic_fit_counterexample:
  "length (band_rows 1000 10000 [(1000, 2), (2000, 2), (3000, 3), (20000, 4)]) = 3
   \<and> (1000, 10000, ''1-10 GeV'') \<in> set sub_regions
   \<and> (\<forall>polyfit1. relativistic_trends polyfit1 [(1000, 2), (2000, 2), (3000, 3), (20000, 4)] = [])"
  by (simp add: band_rows_def sub_regions_def relativistic_trends_def E_rel_rows)

text \<open>
  Claim C5, amended. The trend lines of the relativistic plot (lines 176 to 197) are
  fitted only when the relativistic region, the samples of at least 1000 MeV, holds more
  than 5 samples; then every sub-band holding more than 2 samples gets a trend line, in
  the order of the list, and every sub-band holding fewer than 3 gets none. The printed
  trends (lines 367 to 397) are those of the ranges holding more than 2 samples. In both
  loops the slope and the intercept are what \<^verbatim>\<open>np.polyfit\<close> of degree 1 returns for
  \<open>log10\<close> of the energies and \<open>log10\<close> of the losses of the band; the trend line is drawn
  as ten to the power of \<open>slope * log10 E + intercept\<close> on 50 points. Whenever that call
  returns a least-squares line of the log-log data, the fitted slope and intercept are
  one.
\<close>

theorem regional_fit_guard:
  "relativistic_trends polyfit1 df =
     (if 5 < length (filter (\<lambda>row. 1000 \<le> fst row) df) then
        map (\<lambda>(E_min, E_max, label).
               (let rows = band_rows E_min E_max df;
                    fit = polyfit1 (map (\<lambda>row. np_log10 (Fin (fst row))) rows)
                                   (map (\<lambda>row. np_log10 (Fin (snd row))) rows);
                    E_fit = np_logspace (np_log10 (Fin E_min)) (np_log10 (Fin E_max)) 50
                in \<lparr>tl_label = label, tl_slope = fst fit, tl_intercept = snd fit,
                     tl_E_fit = E_fit,
                     tl_loss_fit =
                       map (\<lambda>x. np_exp10 (np_add (np_mul (fst fit) (np_log10 x)) (snd fit)))
                           E_fit\<rparr>))
            (filter (\<lambda>(E_min, E_max, label). 2 < length (band_rows E_min E_max df)) sub_regions)
      else [])
   \<and> range_trends polyfit1 df min_loss =
       map (\<lambda>(E_min, E_max, range_name).
              (let rows = band_rows E_min E_max df;
                   fit = polyfit1 (map (\<lambda>row. np_log10 (Fin (fst row))) rows)
                                  (map (\<lambda>row. np_log10 (Fin (snd row))) rows)
               in \<lparr>rt_name = range_name, rt_slope = fst fit,
                    rt_increase_in_range = np_div (Fin (snd (last rows))) (Fin (snd (hd rows))),
                    rt_increase_from_min = np_div (Fin (snd (last rows))) (Fin min_loss)\<rparr>))
           (filter (\<lambda>(E_min, E_max, range_name). 2 < length (band_rows E_min E_max df)) ranges)
   \<and> (\<forall>(E_min, E_max, label)\<in>set sub_regions.
         5 < length (filter (\<lambda>row. 1000 \<le> fst row) df)
         \<and> 2 < length (band_rows E_min E_max df)
         \<and> least_squares_line
             (map (\<lambda>row. np_log10 (Fin (fst row))) (band_rows E_min E_max df))
             (map (\<lambda>row. np_log10 (Fin (snd row))) (band_rows E_min E_max df))
             (polyfit1 (map (\<lambda>row. np_log10 (Fin (fst row))) (band_rows E_min E_max df))
                       (map (\<lambda>row. np_log10 (Fin (snd row))) (band_rows E_min E_max df)))
         \<longrightarrow> (\<exists>t\<in>set (relativistic_trends polyfit1 df). tl_label t = label
               \<and> least_squares_line
                   (map (\<lambda>row. np_log10 (Fin (fst row))) (band_rows E_min E_max df))
                   (map (\<lambda>row. np_log10 (Fin (snd row))) (band_rows E_min E_max df))
                   (tl_slope t, tl_intercept t)))
   \<and> (\<forall>(E_min, E_max, range_name)\<in>set ranges.
         2 < length (band_rows E_min E_max df)
         \<and> least_squares_line
             (map (\<lambda>row. np_log10 (Fin (fst row))) (band_rows E_min E_max df))
             (map (\<lambda>row. np_log10 (Fin (snd row))) (band_rows E_min E_max df))
             (polyfit1 (map (\<lambda>row. np_log10 (Fin (fst row))) (band_rows E_min E_max df))
                       (map (\<lambda>row. np_log10 (Fin (snd row))) (band_rows E_min E_max df)))
         \<longrightarrow> (\<exists>t\<in>set (range_trends polyfit1 df min_loss). rt_name t = range_name
               \<and> (\<exists>intercept. least_squares_line
                   (map (\<lambda>row. np_log10 (Fin (fst row))) (band_rows E_min E_max df))
                   (map (\<lambda>row. np_log10 (Fin (snd row))) (band_rows E_min E_max df))
                   (rt_slope t, intercept))))"
proof (intro conjI)
  show "\<forall>(E_min, E_max, label)\<in>set sub_regions.
         5 < length (filter (\<lambda>row. 1000 \<le> fst row) df)
         \<and> 2 < length (band_rows E_min E_max df)
         \<and> least_squares_line
             (map (\<lambda>row. np_log10 (Fin (fst row))) (band_rows E_min E_max df))
             (map (\<lambda>row. np_log10 (Fin (snd row))) (band_rows E_min E_max df))
             (polyfit1 (map (\<lambda>row. np_log10 (Fin (fst row))) (band_rows E_min E_max df))
                       (map (\<lambda>row. np_log10 (Fin (snd row))) (band_rows E_min E_max df)))
         \<longrightarrow> (\<exists>t\<in>set (relativistic_trends polyfit1 df). tl_label t = label
               \<and> least_squares_line
                   (map (\<lambda>row. np_log10 (Fin (fst row))) (band_rows E_min E_max df))
                   (map (\<lambda>row. np_log10 (Fin (snd row))) (band_rows E_min E_max df))
                   (tl_slope t, tl_intercept t))"
  proof (clarify)
    fix E_min E_max label
    let ?X = "map (\<lambda>row. np_log10 (Fin (fst row))) (band_rows E_min E_max df)"
    let ?Y = "map (\<lambda>row. np_log10 (Fin (snd row))) (band_rows E_min E_max df)"
    let ?E = "np_logspace (np_log10 (Fin E_min)) (np_log10 (Fin E_max)) 50"
    let ?t = "\<lparr>tl_label = label, tl_slope = fst (polyfit1 ?X ?Y),
        tl_intercept = snd (polyfit1 ?X ?Y), tl_E_fit = ?E,
        tl_loss_fit =
          map (\<lambda>x. np_exp10 (np_add (np_mul (fst (polyfit1 ?X ?Y)) (np_log10 x))
                                       (snd (polyfit1 ?X ?Y)))) ?E\<rparr>"
    assume m: "(E_min, E_max, label) \<in> set sub_regions"
      and g: "5 < length (filter (\<lambda>row. 1000 \<le> fst row) df)"
      and n: "2 < length (band_rows E_min E_max df)"
      and ls: "least_squares_line ?X ?Y (polyfit1 ?X ?Y)"
    have "(E_min, E_max, label)
        \<in> set (filter (\<lambda>(E_min, E_max, label). 2 < length (band_rows E_min E_max df)) sub_regions)"
      using m n by simp
    then have "?t \<in> set (relativistic_trends polyfit1 df)"
      unfolding relativistic_trends_rows using g by (force simp: Let_def)
    moreover have "tl_label ?t = label" by simp
    moreover have "least_squares_line ?X ?Y (tl_slope ?t, tl_intercept ?t)" using ls by simp
    ultimately show "\<exists>t\<in>set (relativistic_trends polyfit1 df). tl_label t = label
        \<and> least_squares_line ?X ?Y (tl_slope t, tl_intercept t)"
      by blast
  qed
next
  show "\<forall>(E_min, E_max, range_name)\<in>set ranges.
         2 < length (band_rows E_min E_max df)
         \<and> least_squares_line
             (map (\<lambda>row. np_log10 (Fin (fst row))) (band_rows E_min E_max df))
             (map (\<lambda>row. np_log10 (Fin (snd row))) (band_rows E_min E_max df))
             (polyfit1 (map (\<lambda>row. np_log10 (Fin (fst row))) (band_rows E_min E_max df))
                       (map (\<lambda>row. np_log10 (Fin (snd row))) (band_rows E_min E_max df)))
         \<longrightarrow> (\<exists>t\<in>set (range_trends polyfit1 df min_loss). rt_name t = range_name
               \<and> (\<exists>intercept. least_squares_line
                   (map (\<lambda>row. np_log10 (Fin (fst row))) (band_rows E_min E_max df))
                   (map (\<lambda>row. np_log10 (Fin (snd row))) (band_rows E_min E_max df))
                   (rt_slope t, intercept)))"
  proof (clarify)
    fix E_min E_max range_name
    let ?rows = "band_rows E_min E_max df"
    let ?X = "map (\<lambda>row. np_log10 (Fin (fst row))) ?rows"
    let ?Y = "map (\<lambda>row. np_log10 (Fin (snd row))) ?rows"
    let ?t = "\<lparr>rt_name = range_name, rt_slope = fst (polyfit1 ?X ?Y),
        rt_increase_in_range = np_div (Fin (snd (last ?rows))) (Fin (snd (hd ?rows))),
        rt_increase_from_min = np_div (Fin (snd (last ?rows))) (Fin min_loss)\<rparr>"
    assume m: "(E_min, E_max, range_name) \<in> set ranges"
      and n: "2 < length (band_rows E_min E_max df)"
      and ls: "least_squares_line ?X ?Y (polyfit1 ?X ?Y)"
    have "(E_min, E_max, range_name)
        \<in> set (filter (\<lambda>(E_min, E_max, range_name). 2 < length (band_rows E_min E_max df)) ranges)"
      using m n by simp
    then have "?t \<in> set (range_trends polyfit1 df min_loss)"
      unfolding range_trends_rows by (force simp: Let_def)
    moreover have "rt_name ?t = range_name" by simp
    moreover have "least_squares_line ?X ?Y (rt_slope ?t, snd (polyfit1 ?X ?Y))"
      using ls by simp
    ultimately show "\<exists>t\<in>set (range_trends polyfit1 df min_loss). rt_name t = range_name
        \<and> (\<exists>intercept. least_squares_line ?X ?Y (rt_slope t, intercept))"
      by blast
  qed
qed (rule relativistic_trends_rows, rule range_trends_rows)

lemma np_log10_finite:
  assumes "1 \<le> a" and "a \<le> 10 ^ 9"
  shows "np_log10 (Fin a) = Fin (f64_round (log 10 a))"
proof -
  have p: "0 < a" using assms(1) by linarith
  have l: "0 \<le> log 10 a" using assms(1) by simp
  have "log 10 a \<le> log 10 (10 ^ 9)" using assms(2) p by simp
  also have "log 10 (10 ^ 9) = (9::real)" by (simp only: log_pow_cancel)
  finally have u: "log 10 a \<le> 9" .
  have "(2::real) powr of_int 4 = 16" using powr_realpow [of "2::real" 4] by simp
  then have "\<bar>log 10 a\<bar> \<le> 2 powr of_int 4" using l u by linarith
  then have "f64 (log 10 a) = Fin (f64_round (log 10 a))" by (rule f64_bounded) simp_all
  then show ?thesis using p by simp
qed

lemma zero_line_least_squares:
  assumes "length xs = length ys" and "\<forall>y\<in>set ys. y = 0"
  shows "least_squares_line (map Fin xs) (map Fin ys) (Fin 0, Fin 0)"
proof -
  have z: "squared_residuals xs ys 0 0 = 0"
    using assms
  proof (induction xs ys rule: list_induct2)
    case Nil
    then show ?case by (simp add: squared_residuals_def)
  next
    case (Cons x xs y ys)
    then show ?case by (simp add: squared_residuals_def)
  qed
  have nn: "0 \<le> squared_residuals xs ys s i" for s i
    unfolding squared_residuals_def by (rule sum_list_nonneg) auto
  show ?thesis
    unfolding least_squares_line_def
    using assms(1) z nn by (intro exI [of _ xs] exI [of _ ys] exI [of _ 0]) simp
qed

theorem regional_fit_guard_witness:
  "map tl_label
     (relativistic_trends (\<lambda>xs ys. (Fin 0, Fin 0))
        [(1000, 1), (2000, 1), (3000, 1), (20000, 1), (30000, 1), (2000000, 1)])
     = [''1-10 GeV'']
   \<and> (\<exists>t\<in>set (relativistic_trends (\<lambda>xs ys. (Fin 0, Fin 0))
                  [(1000, 1), (2000, 1), (3000, 1), (20000, 1), (30000, 1), (2000000, 1)]).
         tl_label t = ''1-10 GeV''
         \<and> least_squares_line
             [np_log10 (Fin 1000), np_log10 (Fin 2000), np_log10 (Fin 3000)]
             [np_log10 (Fin 1), np_log10 (Fin 1), np_log10 (Fin 1)]
             (tl_slope t, tl_intercept t))
   \<and> range_trends (\<lambda>xs ys. (Fin 0, Fin 0))
        [(1000, 1), (2000, 1), (3000, 1), (20000, 1), (30000, 1), (2000000, 1)] 1 = []"
proof -
  let ?df = "[(1000, 1), (2000, 1), (3000, 1), (20000, 1), (30000, 1), (2000000, 1)] :: dataframe"
  let ?p = "(\<lambda>xs ys. (Fin 0, Fin 0)) :: npfloat list \<Rightarrow> npfloat list \<Rightarrow> npfloat \<times> npfloat"
  let ?X = "[np_log10 (Fin 1000), np_log10 (Fin 2000), np_log10 (Fin 3000)]"
  let ?Y = "[np_log10 (Fin 1), np_log10 (Fin 1), np_log10 (Fin 1)]"
  have rel: "5 < length (filter (\<lambda>row. 1000 \<le> fst row) ?df)" by simp
  have b1: "band_rows 1000 10000 ?df = [(1000, 1), (2000, 1), (3000, 1)]"
    and b2: "band_rows 10000 1000000 ?df = [(20000, 1), (30000, 1)]"
    and b3: "band_rows 1000000 1000000000 ?df = [(2000000, 1)]"
    and b4: "band_rows 1000000 100000000 ?df = [(2000000, 1)]"
    and b5: "band_rows 100000000 1000000000 ?df = []"
    by (simp_all add: band_rows_def)
  have e1: "np_log10 (Fin 1000) = Fin (f64_round (log 10 1000))"
    and e2: "np_log10 (Fin 2000) = Fin (f64_round (log 10 2000))"
    and e3: "np_log10 (Fin 3000) = Fin (f64_round (log 10 3000))"
    by (rule np_log10_finite, simp, simp)+
  have e0: "np_log10 (Fin 1) = Fin 0" by (simp add: f64_small_numerals)
  have "least_squares_line
      [Fin (f64_round (log 10 1000)), Fin (f64_round (log 10 2000)), Fin (f64_round (log 10 3000))]
      [Fin 0, Fin 0, Fin 0] (Fin 0, Fin 0)"
    using zero_line_least_squares
      [of "[f64_round (log 10 1000), f64_round (log 10 2000), f64_round (log 10 3000)]" "[0, 0, 0]"]
    by simp
  then have ls: "least_squares_line ?X ?Y (?p ?X ?Y)"
    by (simp only: e1 e2 e3 e0)
  have m: "(1000, 10000, ''1-10 GeV'') \<in> set sub_regions" by (simp add: sub_regions_def)
  note inst = regional_fit_guard [of ?p ?df 1]
  have eq: "relativistic_trends ?p ?df =
      map (\<lambda>(E_min, E_max, label).
               (let rows = band_rows E_min E_max ?df;
                    fit = ?p (map (\<lambda>row. np_log10 (Fin (fst row))) rows)
                             (map (\<lambda>row. np_log10 (Fin (snd row))) rows);
                    E_fit = np_logspace (np_log10 (Fin E_min)) (np_log10 (Fin E_max)) 50
                in \<lparr>tl_label = label, tl_slope = fst fit, tl_intercept = snd fit,
                     tl_E_fit = E_fit,
                     tl_loss_fit =
                       map (\<lambda>x. np_exp10 (np_add (np_mul (fst fit) (np_log10 x)) (snd fit)))
                           E_fit\<rparr>))
            (filter (\<lambda>(E_min, E_max, label). 2 < length (band_rows E_min E_max ?df)) sub_regions)"
    using inst [THEN conjunct1] rel by simp
  have labels: "map tl_label (relativistic_trends ?p ?df) = [''1-10 GeV'']"
    unfolding eq by (simp add: sub_regions_def b1 b2 b3 Let_def)
  have fit: "\<exists>t\<in>set (relativistic_trends ?p ?df). tl_label t = ''1-10 GeV''
      \<and> least_squares_line ?X ?Y (tl_slope t, tl_intercept t)"
    using bspec [OF inst [THEN conjunct2, THEN conjunct2, THEN conjunct1] m] rel ls
    by (simp add: b1)
  have none: "range_trends ?p ?df 1 = []"
    using inst [THEN conjunct2, THEN conjunct1] by (simp add: ranges_def b4 b5)
  show ?thesis using labels fit none by blast
qed

subsection \<open>The report rows\<close>

lemma find_minimum_Min:
  assumes "band_rows 100 5000 df \<noteq> []"
  shows "\<exists>min_energy. find_minimum df
    = Inr (min_energy, Min (set (map snd (band_rows 100 5000 df))))"
proof -
  let ?R = "band_rows 100 5000 df"
  have ne: "map snd ?R \<noteq> []" using assms by simp
  from np_argmin_first_minimum [OF ne]
  obtain i where i: "i < length ?R" "np_argmin (map snd ?R) = Inr i"
    and le: "\<forall>j<length (map snd ?R). map snd ?R ! i \<le> map snd ?R ! j"
    by auto
  have f: "find_minimum df = Inr (?R ! i)"
    by (rule find_minimum_rows [OF i(2) i(1) E_min_region_rows loss_min_region_rows])
  have "Min (set (map snd ?R)) = snd (?R ! i)"
  proof (rule Min_eqI)
    show "finite (set (map snd ?R))" by simp
    show "snd (?R ! i) \<in> set (map snd ?R)" using i(1) by simp
    fix y assume "y \<in> set (map snd ?R)"
    then obtain j where "j < length ?R" "y = snd (?R ! j)"
      by (auto simp: in_set_conv_nth)
    then show "snd (?R ! i) \<le> y" using le i(1) by simp
  qed
  then have "find_minimum df = Inr (fst (?R ! i), Min (set (map snd ?R)))" using f by simp
  then show ?thesis by blast
qed

lemma detailed_row_of_rows:
  "detailed_row_of np_mean np_std df min_loss (name, E_min, E_max, description) =
     (if band_rows E_min E_max df \<noteq> [] then
        Some (let rows = band_rows E_min E_max df
              in \<lparr>dr_name = name,
                   dr_first_energy = fst (hd rows),
                   dr_last_energy = fst (last rows),
                   dr_count = length rows,
                   dr_avg_loss = np_mean (map snd rows),
                   dr_std_loss = np_std (map snd rows),
                   dr_min_loss = Min (set (map snd rows)),
                   dr_max_loss = Max (set (map snd rows)),
                   dr_increase_factor = np_div (np_mean (map snd rows)) (Fin min_loss),
                   dr_description = description\<rparr>)
      else None)"
proof (cases "band_rows E_min E_max df = []")
  case True
  then show ?thesis
    by (simp add: detailed_row_of_def energies_def band_count)
next
  case False
  then have m: "map snd (band_rows E_min E_max df) \<noteq> []" by simp
  show ?thesis
    using False np_min_Min [OF m] np_max_Max [OF m]
    by (simp add: detailed_row_of_def energies_def energy_loss_def band_count band_select_fst
        band_select_snd Let_def hd_map last_map)
qed

lemma summary_row_of_rows:
  "summary_row_of np_mean df min_loss (name, E_min, E_max) =
     (if 2 \<le> length (band_rows E_min E_max df) then
        Some (let rows = band_rows E_min E_max df
              in \<lparr>sr_name = name,
                   sr_first_energy = fst (hd rows),
                   sr_last_energy = fst (last rows),
                   sr_avg_loss = np_mean (map snd rows),
                   sr_increase_factor = np_div (Fin (snd (last rows))) (Fin min_loss)\<rparr>)
      else None)"
proof (cases "2 \<le> length (band_rows E_min E_max df)")
  case True
  then have "band_rows E_min E_max df \<noteq> []" by auto
  then show ?thesis
    using True
    by (simp add: summary_row_of_def energies_def energy_loss_def band_count band_select_fst
        band_select_snd Let_def hd_map last_map)
next
  case False
  then show ?thesis
    by (simp add: summary_row_of_def energies_def band_count)
qed

lemma detailed_report_rows:
  "detailed_report np_mean np_std df min_loss =
     map (\<lambda>(name, E_min, E_max, description).
            (let rows = band_rows E_min E_max df
             in \<lparr>dr_name = name,
                  dr_first_energy = fst (hd rows),
                  dr_last_energy = fst (last rows),
                  dr_count = length rows,
                  dr_avg_loss = np_mean (map snd rows),
                  dr_std_loss = np_std (map snd rows),
                  dr_min_loss = Min (set (map snd rows)),
                  dr_max_loss = Max (set (map snd rows)),
                  dr_increase_factor = np_div (np_mean (map snd rows)) (Fin min_loss),
                  dr_description = description\<rparr>))
         (filter (\<lambda>(name, E_min, E_max, description). band_rows E_min E_max df \<noteq> [])
            regions_detailed)"
  unfolding detailed_report_def
proof (rule map_filter_cond)
  fix band :: "string \<times> real \<times> real \<times> string"
  obtain name E_min E_max description where band: "band = (name, E_min, E_max, description)"
    by (cases band) auto
  show "detailed_row_of np_mean np_std df min_loss band =
      (if (case band of (name, E_min, E_max, description) \<Rightarrow> band_rows E_min E_max df \<noteq> [])
       then Some (case band of (name, E_min, E_max, description) \<Rightarrow>
            (let rows = band_rows E_min E_max df
             in \<lparr>dr_name = name,
                  dr_first_energy = fst (hd rows),
                  dr_last_energy = fst (last rows),
                  dr_count = length rows,
                  dr_avg_loss = np_mean (map snd rows),
                  dr_std_loss = np_std (map snd rows),
                  dr_min_loss = Min (set (map snd rows)),
                  dr_max_loss = Max (set (map snd rows)),
                  dr_increase_factor = np_div (np_mean (map snd rows)) (Fin min_loss),
                  dr_description = description\<rparr>))
       else None)"
    by (simp add: band detailed_row_of_rows)
qed

lemma summary_report_rows:
  "summary_report np_mean df min_loss =
     map (\<lambda>(name, E_min, E_max).
            (let rows = band_rows E_min E_max df
             in \<lparr>sr_name = name,
                  sr_first_energy = fst (hd rows),
                  sr_last_energy = fst (last rows),
                  sr_avg_loss = np_mean (map snd rows),
                  sr_increase_factor = np_div (Fin (snd (last rows))) (Fin min_loss)\<rparr>))
         (filter (\<lambda>(name, E_min, E_max). 2 \<le> length (band_rows E_min E_max df)) regions)"
  unfolding summary_report_def
proof (rule map_filter_cond)
  fix band :: "string \<times> real \<times> real"
  obtain name E_min E_max where band: "band = (name, E_min, E_max)" by (cases band) auto
  show "summary_row_of np_mean df min_loss band =
      (if (case band of (name, E_min, E_max) \<Rightarrow> 2 \<le> length (band_rows E_min E_max df))
       then Some (case band of (name, E_min, E_max) \<Rightarrow>
            (let rows = band_rows E_min E_max df
             in \<lparr>sr_name = name,
                  sr_first_energy = fst (hd rows),
                  sr_last_energy = fst (last rows),
                  sr_avg_loss = np_mean (map snd rows),
                  sr_increase_factor = np_div (Fin (snd (last rows))) (Fin min_loss)\<rparr>))
       else None)"
    by (simp add: band summary_row_of_rows)
qed

text \<open>
  Claim C6, as stated, fails twice. With the samples below the smallest loss of all is 1,
  at 20000 MeV, but the minimum the report divides by is 2, the smallest loss among the
  samples from 100 to 5000 MeV: the band from 1 to 50 MeV, of mean loss 6, is printed with
  the factor 3, not 6. And in the summary table (lines 449 to 461) the band from 1 to 100
  MeV, of mean loss 6, is printed with the factor 2, its last loss over that minimum, and
  without count, deviation, minimum or maximum; the band from 100 to 10000 MeV holds one
  sample and prints no row. The mean of the two losses 8 and 4 is taken as their exact
  mean 6.
\<close>

theorem summary_table_counterexample:
  "find_minimum [(10, 8), (50, 4), (500, 2), (20000, 1), (30000, 3)] = Inr (500, 2)
   \<and> Min (set (energy_loss [(10, 8), (50, 4), (500, 2), (20000, 1), (30000, 3)])) = 1
   \<and> (\<forall>np_std. \<exists>row.
         detailed_row_of (\<lambda>a. Fin (sum_list a / real (length a))) np_std
           [(10, 8), (50, 4), (500, 2), (20000, 1), (30000, 3)] 2
           (''Muy baja energia'', 1, 50, ''1/beta^2 dominante'') = Some row
         \<and> dr_avg_loss row = Fin 6 \<and> dr_increase_factor row = Fin 3)
   \<and> np_div (Fin 6) (Fin 1) = Fin 6
   \<and> summary_row_of (\<lambda>a. Fin (sum_list a / real (length a)))
        [(10, 8), (50, 4), (500, 2), (20000, 1), (30000, 3)] 2 (''No-relativistica'', 1, 100)
      = Some \<lparr>sr_name = ''No-relativistica'', sr_first_energy = 10, sr_last_energy = 50,
              sr_avg_loss = Fin 6, sr_increase_factor = Fin 2\<rparr>
   \<and> length (band_rows 100 10000 [(10, 8), (50, 4), (500, 2), (20000, 1), (30000, 3)]) = 1
   \<and> summary_row_of (\<lambda>a. Fin (sum_list a / real (length a)))
        [(10, 8), (50, 4), (500, 2), (20000, 1), (30000, 3)] 2 (''Relativistica'', 100, 10000)
      = None"
  by (simp add: find_minimum_def loss_min_region_def E_min_region_def np_select_def
      band_mask_def energies_def energy_loss_def np_argmin_def py_get_def
      detailed_row_of_rows summary_row_of_rows band_rows_def f64_small_numerals)

text \<open>
  Claim C6, amended. Once the minimum-finder has returned, the run prints both tables.
  The minimum loss every factor divides by is the smallest loss among the samples whose
  energy lies in \<open>[100, 5000]\<close>, the minimum-finder's result, not the smallest loss of
  all samples. The detailed table (lines 346 to 362) has one row for every band, in the
  order of the list, that holds at least one sample: the count, the mean, the standard
  deviation, the minimum and the maximum of the losses whose energy lies in the closed
  band, and the ratio of that mean to the minimum loss; a band with no sample prints no
  row. The summary table (lines 449 to 461) has one row for every band that holds at
  least 2 samples: the first and last energy, the mean loss and the ratio of the band's
  last loss to the minimum loss; a band with fewer than 2 samples prints no row.
\<close>

theorem band_statistics:
  assumes "band_rows 100 5000 df \<noteq> []"
  shows "\<exists>r. run_from_minimum_plot ev polyfit1 np_mean np_std df = Inr r
    \<and> r_min_loss r = Min (set (map snd (band_rows 100 5000 df)))
    \<and> r_detailed r =
        map (\<lambda>(name, E_min, E_max, description).
               (let rows = band_rows E_min E_max df
                in \<lparr>dr_name = name,
                     dr_first_energy = fst (hd rows),
                     dr_last_energy = fst (last rows),
                     dr_count = length rows,
                     dr_avg_loss = np_mean (map snd rows),
                     dr_std_loss = np_std (map snd rows),
                     dr_min_loss = Min (set (map snd rows)),
                     dr_max_loss = Max (set (map snd rows)),
                     dr_increase_factor =
                       np_div (np_mean (map snd rows))
                         (Fin (Min (set (map snd (band_rows 100 5000 df))))),
                     dr_description = description\<rparr>))
            (filter (\<lambda>(name, E_min, E_max, description). band_rows E_min E_max df \<noteq> [])
               regions_detailed)
    \<and> r_summary r =
        map (\<lambda>(name, E_min, E_max).
               (let rows = band_rows E_min E_max df
                in \<lparr>sr_name = name,
                     sr_first_energy = fst (hd rows),
                     sr_last_energy = fst (last rows),
                     sr_avg_loss = np_mean (map snd rows),
                     sr_increase_factor =
                       np_div (Fin (snd (last rows)))
                         (Fin (Min (set (map snd (band_rows 100 5000 df)))))\<rparr>))
            (filter (\<lambda>(name, E_min, E_max). 2 \<le> length (band_rows E_min E_max df)) regions)"
proof -
  obtain ax2 where a2: "plot_minimum_region ev df = Inr ax2"
    using plot_minimum_region_returns by blast
  obtain ax3 where a3: "plot_relativistic ev df = Inr ax3"
    using plot_relativistic_returns by blast
  obtain ax_min where a4: "plot_zoom ev df = Inr ax_min"
    using plot_zoom_returns by blast
  obtain min_energy where
    f: "find_minimum df = Inr (min_energy, Min (set (map snd (band_rows 100 5000 df))))"
    using find_minimum_Min [OF assms] by blast
  show ?thesis
    by (simp add: run_from_minimum_plot_def a2 a3 a4 f detailed_report_rows summary_report_rows)
qed

theorem band_statistics_witness:
  "\<exists>r. run_from_minimum_plot (\<lambda>c x. x) (\<lambda>xs ys. (Fin 0, Fin 0))
          (\<lambda>a. Fin (sum_list a / real (length a))) (\<lambda>a. Fin 0)
          [(10, 8), (50, 4), (500, 2), (20000, 2), (30000, 6)] = Inr r
     \<and> r_min_loss r = 2
     \<and> map dr_name (r_detailed r)
         = [''Muy baja energia'', ''Baja energia'', ''Region del minimo'', ''Relativistica'']
     \<and> map dr_count (r_detailed r) = [2, 1, 1, 2]
     \<and> map dr_avg_loss (r_detailed r) = [Fin 6, Fin 4, Fin 2, Fin 4]
     \<and> map dr_min_loss (r_detailed r) = [4, 4, 2, 2]
     \<and> map dr_max_loss (r_detailed r) = [8, 4, 2, 6]
     \<and> map dr_increase_factor (r_detailed r) = [Fin 3, Fin 2, Fin 1, Fin 2]
     \<and> map sr_name (r_summary r) = [''No-relativistica'', ''Ultra-relativistica'']
     \<and> map sr_increase_factor (r_summary r) = [Fin 2, Fin 3]"
proof -
  let ?df = "[(10, 8), (50, 4), (500, 2), (20000, 2), (30000, 6)] :: dataframe"
  have ne: "band_rows 100 5000 ?df \<noteq> []" by (simp add: band_rows_def)
  have b: "band_rows 100 5000 ?df = [(500, 2)]"
    "band_rows 1 50 ?df = [(10, 8), (50, 4)]"
    "band_rows 50 200 ?df = [(50, 4)]"
    "band_rows 200 1000 ?df = [(500, 2)]"
    "band_rows 1000 50000 ?df = [(20000, 2), (30000, 6)]"
    "band_rows 50000 1000000 ?df = []"
    "band_rows 1000000 100000000 ?df = []"
    "band_rows 100000000 1000000000 ?df = []"
    "band_rows 1 100 ?df = [(10, 8), (50, 4)]"
    "band_rows 100 10000 ?df = [(500, 2)]"
    "band_rows 10000 1000000000 ?df = [(20000, 2), (30000, 6)]"
    by (simp_all add: band_rows_def)
  show ?thesis
    using band_statistics [OF ne, of "\<lambda>c x. x" "\<lambda>xs ys. (Fin 0, Fin 0)"
        "\<lambda>a. Fin (sum_list a / real (length a))" "\<lambda>a. Fin 0"]
    by (auto simp: b regions_detailed_def regions_def Let_def f64_small_numerals)
qed

end
